theory Spec2Isabelle
  imports Complex_Main
begin

section \<open>The C++ type double\<close>

text \<open>
  The accumulators of \<^verbatim>\<open>SwipeGesture\<close> and \<^verbatim>\<open>PinchGesture\<close> and the values
  libinput delivers are C++ \<^verbatim>\<open>double\<close>s (IEEE 754 binary64). A finite double is
  modelled by the real number it denotes; the infinities and NaN are values of their own.
  The two zeros are identified: the program only compares, adds and multiplies, and never
  divides, so the sign of a zero is not observable.
\<close>

datatype double = Finite real | PInf | NInf | NaN

text \<open>\<open>ilog2 x\<close> is the binary exponent of a positive real: \<open>2 ^ ilog2 x \<le> x < 2 ^ (ilog2 x + 1)\<close>.\<close>

function ilog2 :: "real \<Rightarrow> int" where
  "ilog2 x = (if x \<le> 0 then 0
              else if 2 \<le> x then ilog2 (x / 2) + 1
              else if x < 1 then ilog2 (x * 2) - 1
              else 0)"
  by pat_completeness auto
termination
proof (relation "measure (\<lambda>x. nat \<bar>\<lfloor>log 2 x\<rfloor>\<bar>)")
  show "wf (measure (\<lambda>x. nat \<bar>\<lfloor>log 2 x\<rfloor>\<bar>))" by simp
next
  fix x :: real assume a: "\<not> x \<le> 0" "2 \<le> x"
  have "log 2 (x / 2) = log 2 x - 1" using a by (simp add: log_divide)
  then have e: "\<lfloor>log 2 (x / 2)\<rfloor> = \<lfloor>log 2 x\<rfloor> - 1" by simp
  have "1 \<le> log 2 x" using a by (simp add: le_log_iff)
  then have f: "1 \<le> \<lfloor>log 2 x\<rfloor>" by (simp add: le_floor_iff)
  show "(x / 2, x) \<in> measure (\<lambda>x. nat \<bar>\<lfloor>log 2 x\<rfloor>\<bar>)"
    unfolding in_measure e using f by linarith
next
  fix x :: real assume a: "\<not> x \<le> 0" "\<not> 2 \<le> x" "x < 1"
  have "log 2 (x * 2) = log 2 x + 1" using a by (simp add: log_mult)
  then have e: "\<lfloor>log 2 (x * 2)\<rfloor> = \<lfloor>log 2 x\<rfloor> + 1" by simp
  have f: "\<lfloor>log 2 x\<rfloor> < 0" using a by (simp add: floor_less_iff)
  show "(x * 2, x) \<in> measure (\<lambda>x. nat \<bar>\<lfloor>log 2 x\<rfloor>\<bar>)"
    unfolding in_measure e using f by linarith
qed

declare ilog2.simps [simp del]

definition pow2 :: "int \<Rightarrow> real" where
  "pow2 q = (if 0 \<le> q then 2 ^ nat q else 1 / 2 ^ nat (- q))"

text \<open>Rounding to the nearest integer, a tie going to the even one.\<close>

definition round_half_even :: "real \<Rightarrow> int" where
  "round_half_even m =
     (let f = \<lfloor>m\<rfloor>; d = m - of_int f
      in if d < 1 / 2 then f
         else if 1 / 2 < d then f + 1
         else if even f then f else f + 1)"

text \<open>
  \<open>round_d r\<close> is the double that an arithmetic operation with the exact result \<open>r\<close>
  returns in the default rounding mode (to nearest, ties to even): a significand of 53 bits,
  the least exponent of a unit in the last place \<open>- 1074\<close> (subnormal numbers), and
  an infinity when the rounded magnitude reaches \<open>2 ^ 1024\<close>.
\<close>

definition round_d :: "real \<Rightarrow> double" where
  "round_d r =
     (if r = 0 then Finite 0
      else let q = max (ilog2 \<bar>r\<bar> - 52) (- 1074);
               v = of_int (round_half_even (r / pow2 q)) * pow2 q
           in if 2 ^ 1024 \<le> v then PInf
              else if v \<le> - (2 ^ 1024) then NInf
              else Finite v)"

text \<open>\<^verbatim>\<open>a + b\<close> on doubles.\<close>

fun dadd :: "double \<Rightarrow> double \<Rightarrow> double" where
  "dadd (Finite x) (Finite y) = round_d (x + y)"
| "dadd NaN _ = NaN"
| "dadd _ NaN = NaN"
| "dadd PInf NInf = NaN"
| "dadd NInf PInf = NaN"
| "dadd PInf _ = PInf"
| "dadd _ PInf = PInf"
| "dadd NInf _ = NInf"
| "dadd _ NInf = NInf"

text \<open>\<^verbatim>\<open>a * b\<close> on doubles.\<close>

fun dmul :: "double \<Rightarrow> double \<Rightarrow> double" where
  "dmul (Finite x) (Finite y) = round_d (x * y)"
| "dmul NaN _ = NaN"
| "dmul _ NaN = NaN"
| "dmul PInf (Finite y) = (if y = 0 then NaN else if 0 < y then PInf else NInf)"
| "dmul NInf (Finite y) = (if y = 0 then NaN else if 0 < y then NInf else PInf)"
| "dmul (Finite x) PInf = (if x = 0 then NaN else if 0 < x then PInf else NInf)"
| "dmul (Finite x) NInf = (if x = 0 then NaN else if 0 < x then NInf else PInf)"
| "dmul PInf PInf = PInf"
| "dmul PInf NInf = NInf"
| "dmul NInf PInf = NInf"
| "dmul NInf NInf = PInf"

text \<open>\<^verbatim>\<open>a < b\<close> and \<^verbatim>\<open>a > b\<close> on doubles: false as soon as one side is NaN.\<close>

fun dlt :: "double \<Rightarrow> double \<Rightarrow> bool" where
  "dlt (Finite x) (Finite y) = (x < y)"
| "dlt NaN _ = False"
| "dlt _ NaN = False"
| "dlt NInf NInf = False"
| "dlt NInf _ = True"
| "dlt PInf _ = False"
| "dlt (Finite x) PInf = True"
| "dlt (Finite x) NInf = False"

definition dgt :: "double \<Rightarrow> double \<Rightarrow> bool" where
  "dgt a b = dlt b a"

text \<open>\<^verbatim>\<open>std::abs\<close> on a double (the overload for \<^verbatim>\<open>double\<close>, which neither truncates
  nor rounds).\<close>

fun dabs :: "double \<Rightarrow> double" where
  "dabs (Finite x) = Finite \<bar>x\<bar>"
| "dabs PInf = PInf"
| "dabs NInf = PInf"
| "dabs NaN = NaN"

section \<open>Gesture sessions\<close>

text \<open>The structs \<^verbatim>\<open>SwipeGesture\<close> and \<^verbatim>\<open>PinchGesture\<close> (\<^verbatim>\<open>main.cpp\<close>, lines 80 to 93),
  field by field. The program declares no third struct: a hold has no session.\<close>

record SwipeGesture =
  dx :: double
  dy :: double
  active :: bool
  fingers :: int

record PinchGesture =
  scale :: double
  dx :: double
  dy :: double
  fingers :: int
  active :: bool

text \<open>
  What the program prints on standard output and what it hands to \<^verbatim>\<open>std::system\<close>, in
  the build without \<^verbatim>\<open>DEBUG\<close>:
  \<^item> \<open>Detected n d\<close>: \<^verbatim>\<open>Detected <n>-finger swipe <d>\<close>
  \<^item> \<open>Running c\<close>: \<^verbatim>\<open>Running command: <c>\<close>
  \<^item> \<open>System c\<close>: the call \<^verbatim>\<open>std::system(c)\<close>
  \<^item> \<open>NoBinding\<close>: \<^verbatim>\<open>No binding found for this gesture\<close>
  \<^item> \<open>PinchOut\<close>: \<^verbatim>\<open>Detected pinch out (zoom in)\<close>
  \<^item> \<open>PinchIn\<close>: \<^verbatim>\<open>Detected pinch in (zoom out)\<close>
  \<^item> \<open>MinorPinch\<close>: \<^verbatim>\<open>Minor pinch, no zoom direction detected\<close>
  \<^item> \<open>Unbound n d\<close>: \<^verbatim>\<open>Unbound <n>F <d>\<close>
  \<^item> \<open>Bound n d c\<close>: \<^verbatim>\<open>Bound <n>F <d> -> <c>\<close>
\<close>

datatype effect =
    Detected int string
  | Running string
  | System string
  | NoBinding
  | PinchOut
  | PinchIn
  | MinorPinch
  | Unbound int string
  | Bound int string string

text \<open>The libinput events the \<^verbatim>\<open>switch\<close> of \<^verbatim>\<open>main\<close> tells apart, with the payload it reads:
  the finger count of a Begin, \<open>dx\<close> and \<open>dy\<close> of a swipe Update, the scale, \<open>dx\<close> and \<open>dy\<close> of
  a pinch Update. \<open>OTHER_EVENT\<close> is the \<^verbatim>\<open>default\<close> case.\<close>

datatype event =
    GESTURE_SWIPE_BEGIN int
  | GESTURE_SWIPE_UPDATE double double
  | GESTURE_SWIPE_END
  | POINTER_AXIS
  | GESTURE_PINCH_BEGIN int
  | GESTURE_PINCH_UPDATE double double double
  | GESTURE_PINCH_END
  | GESTURE_HOLD_BEGIN int
  | GESTURE_HOLD_END int
  | OTHER_EVENT

type_synonym key = "int \<times> string"

type_synonym bindings = "key \<rightharpoonup> string"

text \<open>The globals \<^verbatim>\<open>swipe\<close>, \<^verbatim>\<open>pinch\<close>, \<^verbatim>\<open>gesture_bindings\<close> and
  \<^verbatim>\<open>selected_command_indices\<close> (lines 96 to 100), and the function-local static
  \<^verbatim>\<open>user_commands\<close> (line 368), with the values they have when the program starts.\<close>

record state =
  swipe :: SwipeGesture
  pinch :: PinchGesture
  gesture_bindings :: bindings
  selected_command_indices :: "key \<rightharpoonup> nat"
  user_commands :: "string list"

definition init_state :: state where
  "init_state =
     \<lparr>swipe = \<lparr>SwipeGesture.dx = Finite 0, SwipeGesture.dy = Finite 0,
               SwipeGesture.active = False, SwipeGesture.fingers = 0\<rparr>,
      pinch = \<lparr>scale = Finite 1, PinchGesture.dx = Finite 0, PinchGesture.dy = Finite 0,
               PinchGesture.fingers = 0, PinchGesture.active = False\<rparr>,
      gesture_bindings = Map.empty,
      selected_command_indices = Map.empty,
      user_commands = []\<rparr>"

subsection \<open>Swipe\<close>

text \<open>The cases \<^verbatim>\<open>GESTURE_SWIPE_BEGIN\<close> (lines 195 to 206) and \<^verbatim>\<open>GESTURE_SWIPE_UPDATE\<close>
  (lines 208 to 217). The Update does not read the flag \<^verbatim>\<open>active\<close>.\<close>

definition on_swipe_begin :: "SwipeGesture \<Rightarrow> int \<Rightarrow> SwipeGesture" where
  "on_swipe_begin g n =
     g\<lparr>SwipeGesture.active := True, SwipeGesture.dx := Finite 0, SwipeGesture.dy := Finite 0,
       SwipeGesture.fingers := n\<rparr>"

definition on_swipe_update :: "SwipeGesture \<Rightarrow> double \<Rightarrow> double \<Rightarrow> SwipeGesture" where
  "on_swipe_update g x y =
     g\<lparr>SwipeGesture.dx := dadd (SwipeGesture.dx g) x,
       SwipeGesture.dy := dadd (SwipeGesture.dy g) y\<rparr>"

text \<open>The classification at the end of a swipe (lines 226 to 237); the empty string is
  "no direction".\<close>

definition swipe_direction :: "double \<Rightarrow> double \<Rightarrow> string" where
  "swipe_direction x y =
     (if dgt (dabs x) (dabs y) then
        (if dgt x (Finite 50) then ''RIGHT''
         else if dlt x (Finite (- 50)) then ''LEFT''
         else '''')
      else
        (if dgt y (Finite 50) then ''DOWN''
         else if dlt y (Finite (- 50)) then ''UP''
         else ''''))"

text \<open>
  The lookup in \<^verbatim>\<open>gesture_bindings\<close> and the call of the command (lines 242 to 249),
  which the case \<^verbatim>\<open>GESTURE_SWIPE_END\<close> (lines 219 to 253) runs when there is a direction.
  \<open>sys\<close> stands for
  \<^verbatim>\<open>std::system\<close>: it gives the value the call returns, which the program stores in
  \<^verbatim>\<open>ret\<close> and casts to void.
\<close>

definition dispatch :: "(string \<Rightarrow> int) \<Rightarrow> bindings \<Rightarrow> key \<Rightarrow> effect list" where
  "dispatch sys b k =
     (case b k of
        Some cmd \<Rightarrow> (let ret = sys cmd in [Running cmd, System cmd])
      | None \<Rightarrow> [NoBinding])"

definition on_swipe_end :: "(string \<Rightarrow> int) \<Rightarrow> state \<Rightarrow> state \<times> effect list" where
  "on_swipe_end sys s =
     (let g = (swipe s)\<lparr>SwipeGesture.active := False\<rparr>;
          direction = swipe_direction (SwipeGesture.dx g) (SwipeGesture.dy g)
      in (s\<lparr>swipe := g\<rparr>,
          if direction \<noteq> '''' then
            Detected (SwipeGesture.fingers g) direction
              # dispatch sys (gesture_bindings s) (SwipeGesture.fingers g, direction)
          else []))"

subsection \<open>Pinch\<close>

text \<open>The cases \<^verbatim>\<open>GESTURE_PINCH_BEGIN\<close> (lines 277 to 289), \<^verbatim>\<open>GESTURE_PINCH_UPDATE\<close>
  (lines 291 to 303) and \<^verbatim>\<open>GESTURE_PINCH_END\<close> (lines 305 to 321).\<close>

definition on_pinch_begin :: "PinchGesture \<Rightarrow> int \<Rightarrow> PinchGesture" where
  "on_pinch_begin g n =
     g\<lparr>PinchGesture.active := True, scale := Finite 1, PinchGesture.dx := Finite 0,
       PinchGesture.dy := Finite 0, PinchGesture.fingers := n\<rparr>"

definition on_pinch_update :: "PinchGesture \<Rightarrow> double \<Rightarrow> double \<Rightarrow> double \<Rightarrow> PinchGesture" where
  "on_pinch_update g scale_step x y =
     g\<lparr>scale := dmul (scale g) scale_step,
       PinchGesture.dx := dadd (PinchGesture.dx g) x,
       PinchGesture.dy := dadd (PinchGesture.dy g) y\<rparr>"

text \<open>The literals \<^verbatim>\<open>1.1\<close> and \<^verbatim>\<open>0.9\<close> are the doubles nearest to these decimals.\<close>

definition pinch_verdict :: "double \<Rightarrow> effect" where
  "pinch_verdict sc =
     (if dgt sc (round_d (11 / 10)) then PinchOut
      else if dlt sc (round_d (9 / 10)) then PinchIn
      else MinorPinch)"

definition on_pinch_end :: "state \<Rightarrow> state \<times> effect list" where
  "on_pinch_end s =
     (let g = (pinch s)\<lparr>PinchGesture.active := False\<rparr>
      in (s\<lparr>pinch := g\<rparr>, [pinch_verdict (scale g)]))"

subsection \<open>The switch over the event type\<close>

text \<open>Lines 193 to 348. The cases of a scroll, of a hold (lines 323 to 340) and the default
  case read the event and print under \<^verbatim>\<open>DEBUG\<close> only.\<close>

fun handle_event :: "(string \<Rightarrow> int) \<Rightarrow> state \<Rightarrow> event \<Rightarrow> state \<times> effect list" where
  "handle_event sys s (GESTURE_SWIPE_BEGIN n) = (s\<lparr>swipe := on_swipe_begin (swipe s) n\<rparr>, [])"
| "handle_event sys s (GESTURE_SWIPE_UPDATE x y) = (s\<lparr>swipe := on_swipe_update (swipe s) x y\<rparr>, [])"
| "handle_event sys s GESTURE_SWIPE_END = on_swipe_end sys s"
| "handle_event sys s POINTER_AXIS = (s, [])"
| "handle_event sys s (GESTURE_PINCH_BEGIN n) = (s\<lparr>pinch := on_pinch_begin (pinch s) n\<rparr>, [])"
| "handle_event sys s (GESTURE_PINCH_UPDATE sc x y) =
     (s\<lparr>pinch := on_pinch_update (pinch s) sc x y\<rparr>, [])"
| "handle_event sys s GESTURE_PINCH_END = on_pinch_end s"
| "handle_event sys s (GESTURE_HOLD_BEGIN n) = (s, [])"
| "handle_event sys s (GESTURE_HOLD_END n) = (s, [])"
| "handle_event sys s OTHER_EVENT = (s, [])"

text \<open>The inner \<^verbatim>\<open>while\<close> loop: every pending event in the order of arrival.\<close>

fun handle_events :: "(string \<Rightarrow> int) \<Rightarrow> state \<Rightarrow> event list \<Rightarrow> state \<times> effect list" where
  "handle_events sys s [] = (s, [])"
| "handle_events sys s (e # es) =
     (let (s1, out1) = handle_event sys s e;
          (s2, out2) = handle_events sys s1 es
      in (s2, out1 @ out2))"

section \<open>The action catalog and the binding table\<close>

text \<open>\<^verbatim>\<open>std::find\<close> followed by \<^verbatim>\<open>std::distance\<close> from \<^verbatim>\<open>begin()\<close>: the position of the
  first element equal to \<open>c\<close>, and \<open>None\<close> for \<^verbatim>\<open>end()\<close>.\<close>

fun find_cmd :: "string list \<Rightarrow> string \<Rightarrow> nat option" where
  "find_cmd [] c = None"
| "find_cmd (x # xs) c = (if x = c then Some 0 else map_option Suc (find_cmd xs c))"

text \<open>The body of \<^verbatim>\<open>if (ImGui::Button("Add"))\<close> (lines 372 to 380), on the text of the input
  buffer: the search is in \<^verbatim>\<open>user_commands\<close>.\<close>

definition add_custom_action :: "string \<Rightarrow> string list \<Rightarrow> string list" where
  "add_custom_action cmd ucs =
     (if cmd \<noteq> [] \<and> find_cmd ucs cmd = None then ucs @ [cmd] else ucs)"

text \<open>The catalog (lines 384 to 398): the built-in commands, then the user's.\<close>

definition predefined_commands :: "string list" where
  "predefined_commands =
     [''None'',
      ''notify-send 'Gesture Triggered'' @ [CHR 0x27],
      ''gnome-terminal'',
      ''google-chrome'',
      ''playerctl play-pause'',
      ''playerctl next'',
      ''playerctl previous'']"

definition all_commands :: "string list \<Rightarrow> string list" where
  "all_commands ucs = predefined_commands @ ucs"

text \<open>
  The loop "Prune stale bindings" (lines 401 to 407): every entry whose command \<^verbatim>\<open>std::find\<close> does not find
  in \<^verbatim>\<open>all_commands\<close> is erased, every other entry is kept.
\<close>

definition prune_stale_bindings :: "string list \<Rightarrow> bindings \<Rightarrow> bindings" where
  "prune_stale_bindings cmds b =
     (\<lambda>k. case b k of
             None \<Rightarrow> None
           | Some c \<Rightarrow> (if find_cmd cmds c = None then None else Some c))"

text \<open>\<^verbatim>\<open>sync_selected_commands\<close> (lines 102 to 109): the index of every bound command that is
  found.\<close>

definition sync_selected_commands ::
  "string list \<Rightarrow> bindings \<Rightarrow> (key \<rightharpoonup> nat) \<Rightarrow> (key \<rightharpoonup> nat)" where
  "sync_selected_commands commands b sel =
     (\<lambda>k. case b k of
             None \<Rightarrow> sel k
           | Some c \<Rightarrow> (case find_cmd commands c of None \<Rightarrow> sel k | Some i \<Rightarrow> Some i))"

text \<open>The body of \<^verbatim>\<open>if (ImGui::Selectable(...))\<close> without the index (lines 428 to 435):
  unbind on \<^verbatim>\<open>"None"\<close>, bind otherwise.\<close>

definition set_binding :: "bindings \<Rightarrow> key \<Rightarrow> string \<Rightarrow> bindings" where
  "set_binding b k a = (if a = ''None'' then b(k := None) else b(k \<mapsto> a))"

definition set_binding_output :: "key \<Rightarrow> string \<Rightarrow> effect" where
  "set_binding_output k a =
     (if a = ''None'' then Unbound (fst k) (snd k) else Bound (fst k) (snd k) a)"

definition directions :: "string list" where
  "directions = [''LEFT'', ''RIGHT'', ''UP'', ''DOWN'']"

text \<open>The keys the two nested \<^verbatim>\<open>for\<close> loops of the display visit, in their order.\<close>

definition binding_keys :: "key list" where
  "binding_keys = concat (map (\<lambda>f. map (\<lambda>d. (f, d)) directions) [3, 4])"

text \<open>
  What the user does in one frame: \<open>add_clicked\<close> is the text of the input buffer when the
  button "Add" is pressed, and \<open>item_clicked k\<close> is the index of the entry chosen in the
  combo box of key \<open>k\<close>. An index that is not an entry of the combo box is no click.
\<close>

record gui_input =
  add_clicked :: "string option"
  item_clicked :: "key \<Rightarrow> nat option"

text \<open>One combo box: the body of the inner \<^verbatim>\<open>for\<close> loop of the display (lines 417 to 441).
  \<^verbatim>\<open>selected_command_indices[key]\<close> inserts the index 0 for a key that has none.\<close>

definition combo ::
  "string list \<Rightarrow> (key \<Rightarrow> nat option) \<Rightarrow> state \<times> effect list \<Rightarrow> key \<Rightarrow> state \<times> effect list"
  where
  "combo cmds click acc k =
     (let s = fst acc;
          selected = (case selected_command_indices s k of None \<Rightarrow> 0 | Some i \<Rightarrow> i);
          s1 = s\<lparr>selected_command_indices := (selected_command_indices s)(k \<mapsto> selected)\<rparr>
      in case click k of
           None \<Rightarrow> (s1, snd acc)
         | Some i \<Rightarrow>
             if i < length cmds then
               (s1\<lparr>selected_command_indices := (selected_command_indices s1)(k \<mapsto> i),
                   gesture_bindings := set_binding (gesture_bindings s1) k (cmds ! i)\<rparr>,
                snd acc @ [set_binding_output k (cmds ! i)])
             else (s1, snd acc))"

text \<open>Lines "Prune stale bindings and re-sync" of the frame (lines 400 to 409).\<close>

definition resync :: "state \<Rightarrow> state" where
  "resync s =
     (let cmds = all_commands (user_commands s);
          b = prune_stale_bindings cmds (gesture_bindings s)
      in s\<lparr>gesture_bindings := b,
           selected_command_indices := sync_selected_commands cmds b Map.empty\<rparr>)"

definition add_step :: "gui_input \<Rightarrow> state \<Rightarrow> state" where
  "add_step inp s =
     (case add_clicked inp of
        None \<Rightarrow> s
      | Some cmd \<Rightarrow> s\<lparr>user_commands := add_custom_action cmd (user_commands s)\<rparr>)"

text \<open>The window "Gesture Bindings" of one iteration of the main loop (lines 365 to 445).\<close>

definition gui_frame :: "state \<Rightarrow> gui_input \<Rightarrow> state \<times> effect list" where
  "gui_frame s inp =
     (let s1 = resync (add_step inp s)
      in foldl (combo (all_commands (user_commands s1)) (item_clicked inp)) (s1, []) binding_keys)"

section \<open>The main loop\<close>

text \<open>An iteration handles the pending events and then draws a frame; a run is a sequence
  of both.\<close>

datatype input = Event event | Frame gui_input

fun step :: "(string \<Rightarrow> int) \<Rightarrow> state \<Rightarrow> input \<Rightarrow> state \<times> effect list" where
  "step sys s (Event e) = handle_event sys s e"
| "step sys s (Frame inp) = gui_frame s inp"

fun run :: "(string \<Rightarrow> int) \<Rightarrow> state \<Rightarrow> input list \<Rightarrow> state \<times> effect list" where
  "run sys s [] = (s, [])"
| "run sys s (i # is) =
     (let (s1, out1) = step sys s i;
          (s2, out2) = run sys s1 is
      in (s2, out1 @ out2))"

section \<open>Notions used to state the properties\<close>

text \<open>\<^verbatim>\<open>a <= b\<close> on doubles. The program never evaluates it; it states the branch
  "\<open>|dx| \<le> |dy|\<close>" of the classification.\<close>

fun dle :: "double \<Rightarrow> double \<Rightarrow> bool" where
  "dle (Finite x) (Finite y) = (x \<le> y)"
| "dle NaN _ = False"
| "dle _ NaN = False"
| "dle NInf _ = True"
| "dle _ PInf = True"
| "dle PInf _ = False"
| "dle (Finite x) NInf = False"

text \<open>A sequence of swipe Updates with finite motion, and of pinch Updates with finite
  scale factors.\<close>

definition swipe_updates :: "(real \<times> real) list \<Rightarrow> event list" where
  "swipe_updates ds = map (\<lambda>d. GESTURE_SWIPE_UPDATE (Finite (fst d)) (Finite (snd d))) ds"

definition pinch_updates :: "(real \<times> double \<times> double) list \<Rightarrow> event list" where
  "pinch_updates ps =
     map (\<lambda>p. GESTURE_PINCH_UPDATE (Finite (fst p)) (fst (snd p)) (snd (snd p))) ps"

text \<open>No addition of the running sum \<open>acc + d\<^sub>1 + \<dots>\<close> is rounded: each partial sum is a
  double. The same for the running product.\<close>

fun sums_exact :: "real \<Rightarrow> real list \<Rightarrow> bool" where
  "sums_exact acc [] = True"
| "sums_exact acc (d # ds) = (round_d (acc + d) = Finite (acc + d) \<and> sums_exact (acc + d) ds)"

fun products_exact :: "real \<Rightarrow> real list \<Rightarrow> bool" where
  "products_exact acc [] = True"
| "products_exact acc (f # fs) =
     (round_d (acc * f) = Finite (acc * f) \<and> products_exact (acc * f) fs)"

text \<open>A quarter of the distance between the double 50 and the next double, \<open>50 + 2\<^sup>-\<^sup>4\<^sup>7\<close>.\<close>

definition quarter_ulp :: real where
  "quarter_ulp = 1 / 2 ^ 49"

text \<open>Every key of the table is one of the eight keys of the display.\<close>

definition keys_ok :: "bindings \<Rightarrow> bool" where
  "keys_ok b = (\<forall>k. b k \<noteq> None \<longrightarrow> k \<in> set binding_keys)"

text \<open>Every command of the table is in the catalog.\<close>

definition consistent :: "string list \<Rightarrow> bindings \<Rightarrow> bool" where
  "consistent cmds b = (\<forall>k. b k = None \<or> (\<exists>a. b k = Some a \<and> a \<in> set cmds))"

text \<open>The frame in which the user chooses entry \<open>i\<close> in the combo box of key \<open>k\<close>.\<close>

definition choose_item :: "key \<Rightarrow> nat \<Rightarrow> gui_input" where
  "choose_item k i = \<lparr>add_clicked = None, item_clicked = (\<lambda>k'. if k' = k then Some i else None)\<rparr>"

text \<open>The frame in which the user presses "Add" with the text \<open>cmd\<close> in the buffer.\<close>

definition press_add :: "string \<Rightarrow> gui_input" where
  "press_add cmd = \<lparr>add_clicked = Some cmd, item_clicked = (\<lambda>k. None)\<rparr>"

section \<open>Properties\<close>

lemmas round_eval = round_d_def round_half_even_def pow2_def ilog2.simps

lemmas gui_eval = gui_frame_def resync_def add_step_def combo_def all_commands_def
  predefined_commands_def binding_keys_def directions_def prune_stale_bindings_def
  sync_selected_commands_def set_binding_def set_binding_output_def add_custom_action_def
  init_state_def choose_item_def press_add_def Let_def

subsection \<open>The rounding\<close>

text \<open>\<open>ilog2\<close> is the binary exponent, and a finite \<open>round_d r\<close> is a multiple of the unit
  in the last place of \<open>r\<close> at most half a unit away from \<open>r\<close>.\<close>

lemma pow2_powr: "pow2 q = 2 powr (of_int q)"
proof (cases "0 \<le> q")
  case True
  then have "(2::real) powr (of_int q) = 2 powr (real (nat q))" by simp
  also have "\<dots> = 2 ^ nat q" by (simp add: powr_realpow)
  finally show ?thesis using True by (simp add: pow2_def)
next
  case False
  then have "(2::real) powr (of_int q) = 2 powr (- real (nat (- q)))" by simp
  also have "\<dots> = 1 / 2 ^ nat (- q)" by (simp add: powr_minus powr_realpow divide_inverse)
  finally show ?thesis using False by (simp add: pow2_def)
qed

lemma ilog2_bounds: "0 < x \<Longrightarrow> pow2 (ilog2 x) \<le> x \<and> x < pow2 (ilog2 x + 1)"
proof (induction x rule: ilog2.induct)
  case (1 x)
  show ?case
  proof (cases "2 \<le> x")
    case True
    then have e: "ilog2 x = ilog2 (x / 2) + 1" using 1(3) by (subst ilog2.simps) simp
    have "pow2 (ilog2 (x / 2)) \<le> x / 2 \<and> x / 2 < pow2 (ilog2 (x / 2) + 1)"
      using 1(1) 1(3) True by simp
    then show ?thesis unfolding e pow2_powr by (simp add: powr_add)
  next
    case False
    show ?thesis
    proof (cases "x < 1")
      case True
      then have e: "ilog2 x = ilog2 (x * 2) - 1" using 1(3) False by (subst ilog2.simps) simp
      have "pow2 (ilog2 (x * 2)) \<le> x * 2 \<and> x * 2 < pow2 (ilog2 (x * 2) + 1)"
        using 1(2) 1(3) True False by simp
      then show ?thesis unfolding e pow2_powr by (simp add: powr_add powr_diff)
    next
      case nl: False
      then have e: "ilog2 x = 0" using 1(3) False by (subst ilog2.simps) simp
      show ?thesis unfolding e using nl False by (simp add: pow2_def)
    qed
  qed
qed

lemma pow2_pos: "0 < pow2 q"
  by (simp add: pow2_def)

lemma round_half_even_error: "\<bar>of_int (round_half_even m) - m\<bar> \<le> 1 / 2"
proof -
  have "of_int \<lfloor>m\<rfloor> \<le> m" "m < of_int \<lfloor>m\<rfloor> + 1" by linarith+
  then show ?thesis
    by (auto simp add: round_half_even_def Let_def)
qed

lemma round_d_nearest:
  assumes "round_d r = Finite v"
  shows "\<bar>v - r\<bar> \<le> pow2 (max (ilog2 \<bar>r\<bar> - 52) (- 1074)) / 2"
proof (cases "r = 0")
  case True
  then show ?thesis using assms pow2_pos [of "max (ilog2 \<bar>r\<bar> - 52) (- 1074)"]
    by (simp add: round_d_def)
next
  case False
  let ?q = "max (ilog2 \<bar>r\<bar> - 52) (- 1074)"
  let ?n = "round_half_even (r / pow2 ?q)"
  have v: "v = of_int ?n * pow2 ?q"
    using assms False by (simp add: round_d_def Let_def split: if_splits)
  have "\<bar>of_int ?n - r / pow2 ?q\<bar> \<le> 1 / 2" by (rule round_half_even_error)
  then have "\<bar>of_int ?n - r / pow2 ?q\<bar> * pow2 ?q \<le> 1 / 2 * pow2 ?q"
    using pow2_pos [of ?q] by (intro mult_right_mono) simp_all
  moreover have "\<bar>of_int ?n - r / pow2 ?q\<bar> * pow2 ?q = \<bar>of_int ?n * pow2 ?q - r\<bar>"
  proof -
    have "\<bar>of_int ?n - r / pow2 ?q\<bar> * pow2 ?q = \<bar>(of_int ?n - r / pow2 ?q) * pow2 ?q\<bar>"
      using pow2_pos [of ?q] by (simp add: abs_mult)
    also have "(of_int ?n - r / pow2 ?q) * pow2 ?q = of_int ?n * pow2 ?q - r"
      using pow2_pos [of ?q] by (simp add: left_diff_distrib)
    finally show ?thesis .
  qed
  ultimately show ?thesis unfolding v by simp
qed

subsection \<open>The rounding at the values used below\<close>

text \<open>Integers and the doubles nearest to some decimals; the sum \<^verbatim>\<open>0.1 + 0.2\<close> is the
  well-known \<^verbatim>\<open>0.30000000000000004\<close> and not the double nearest to \<open>0.3\<close>.\<close>

lemma round_d_0: "round_d 0 = Finite 0"
  by (simp add: round_d_def)

lemma round_d_1: "round_d 1 = Finite 1"
  by (simp add: round_eval)

lemma round_d_2: "round_d 2 = Finite 2"
  by (simp add: round_eval)

lemma round_d_5: "round_d 5 = Finite 5"
  by (simp add: round_eval)

lemma round_d_10: "round_d 10 = Finite 10"
  by (simp add: round_eval)

lemma round_d_40: "round_d 40 = Finite 40"
  by (simp add: round_eval)

lemma round_d_50: "round_d 50 = Finite 50"
  by (simp add: round_eval)

lemma round_d_80: "round_d 80 = Finite 80"
  by (simp add: round_eval)

lemma round_d_m20: "round_d (- 20) = Finite (- 20)"
  by (simp add: round_eval)

lemma round_d_m90: "round_d (- 90) = Finite (- 90)"
  by (simp add: round_eval)

lemma round_d_half: "round_d (1 / 2) = Finite (1 / 2)"
  by (simp add: round_eval)

lemma round_d_11_10: "round_d (11 / 10) = Finite (2476979795053773 / 2251799813685248)"
  by (simp add: round_eval)

lemma round_d_9_10: "round_d (9 / 10) = Finite (8106479329266893 / 9007199254740992)"
  by (simp add: round_eval)

lemma round_d_6_5: "round_d (6 / 5) = Finite (5404319552844595 / 4503599627370496)"
  by (simp add: round_eval)

lemma round_d_8_5: "round_d (8 / 5) = Finite (3602879701896397 / 2251799813685248)"
  by (simp add: round_eval)

lemma round_d_6_5_exact:
  "round_d (5404319552844595 / 4503599627370496) = Finite (5404319552844595 / 4503599627370496)"
  by (simp add: round_eval)

lemma round_d_4_5_exact:
  "round_d (3602879701896397 / 4503599627370496) = Finite (3602879701896397 / 4503599627370496)"
  by (simp add: round_eval)

lemma round_d_1_10: "round_d (1 / 10) = Finite (3602879701896397 / 36028797018963968)"
  by (simp add: round_eval)

lemma round_d_1_5: "round_d (1 / 5) = Finite (3602879701896397 / 18014398509481984)"
  by (simp add: round_eval)

lemma round_d_3_10: "round_d (3 / 10) = Finite (5404319552844595 / 18014398509481984)"
  by (simp add: round_eval)

lemma dadd_tenth_fifth:
  "dadd (round_d (1 / 10)) (round_d (1 / 5)) = Finite (1351079888211149 / 4503599627370496)"
  by (simp add: round_d_1_10 round_d_1_5) (simp add: round_eval)

lemma round_d_quarter_ulp: "round_d quarter_ulp = Finite quarter_ulp"
  by (simp add: quarter_ulp_def round_eval)

lemma round_d_50_quarter: "round_d (50 + quarter_ulp) = Finite 50"
  by (simp add: quarter_ulp_def round_eval)

lemma round_d_50_ulp: "round_d (50 + 4 * quarter_ulp) = Finite (50 + 4 * quarter_ulp)"
  by (simp add: quarter_ulp_def round_eval)

lemma quarter_ulp_pos: "0 < quarter_ulp"
  by (simp add: quarter_ulp_def)

subsection \<open>Sequences of events\<close>

lemma handle_events_append:
  "handle_events sys s (es @ fs) =
     (fst (handle_events sys (fst (handle_events sys s es)) fs),
      snd (handle_events sys s es) @ snd (handle_events sys (fst (handle_events sys s es)) fs))"
  by (induction es arbitrary: s) (simp_all add: split_beta)

lemma run_Cons_eq:
  "run sys s (i # is) =
     (fst (run sys (fst (step sys s i)) is),
      snd (step sys s i) @ snd (run sys (fst (step sys s i)) is))"
  by (simp add: split_beta)

lemma handle_event_bindings:
  "gesture_bindings (fst (handle_event sys s e)) = gesture_bindings s"
  by (cases e) (simp_all add: on_swipe_end_def on_pinch_end_def Let_def)

lemma handle_event_user_commands:
  "user_commands (fst (handle_event sys s e)) = user_commands s"
  by (cases e) (simp_all add: on_swipe_end_def on_pinch_end_def Let_def)

subsection \<open>Swipe classification\<close>

lemma swipe_direction_finite:
  "swipe_direction (Finite a) (Finite b) =
     (if \<bar>a\<bar> > \<bar>b\<bar> then (if a > 50 then ''RIGHT'' else if a < - 50 then ''LEFT'' else '''')
      else (if b > 50 then ''DOWN'' else if b < - 50 then ''UP'' else ''''))"
  by (simp add: swipe_direction_def dgt_def)

lemma dle_not_dgt: "dle a b \<Longrightarrow> \<not> dgt a b"
  by (cases a; cases b) (simp_all add: dgt_def)

lemma dlt_not_dgt: "dlt x (Finite (- 50)) \<Longrightarrow> \<not> dgt x (Finite 50)"
  by (cases x) (simp_all add: dgt_def)

lemma swipe_end_output:
  "snd (handle_event sys s GESTURE_SWIPE_END) =
     (if swipe_direction (SwipeGesture.dx (swipe s)) (SwipeGesture.dy (swipe s)) = [] then []
      else Detected (SwipeGesture.fingers (swipe s))
             (swipe_direction (SwipeGesture.dx (swipe s)) (SwipeGesture.dy (swipe s)))
           # dispatch sys (gesture_bindings s)
               (SwipeGesture.fingers (swipe s),
                swipe_direction (SwipeGesture.dx (swipe s)) (SwipeGesture.dy (swipe s))))"
  by (simp add: on_swipe_end_def Let_def)

text \<open>
  Claim C1. At the end of a swipe the accumulated \<open>(x, y)\<close> is classified as follows, the
  comparisons being those of doubles. When \<open>|x| > |y|\<close>: RIGHT if \<open>x > 50\<close>, LEFT if
  \<open>x < - 50\<close>, no direction otherwise. When \<open>|x| \<le> |y|\<close>, the tie included: DOWN if
  \<open>y > 50\<close>, UP if \<open>y < - 50\<close>, no direction otherwise. In particular \<open>(51, 0)\<close> is RIGHT,
  \<open>(50, 0)\<close> has no direction, \<open>(- 51, 0)\<close> is LEFT and \<open>(60, 60)\<close> is DOWN. The end of the
  swipe announces the direction found for the accumulators of the session, and announces
  nothing when there is none.
\<close>

theorem swipe_classification:
  "(dgt (dabs x) (dabs y) \<and> dgt x (Finite 50) \<longrightarrow> swipe_direction x y = ''RIGHT'') \<and>
   (dgt (dabs x) (dabs y) \<and> dlt x (Finite (- 50)) \<longrightarrow> swipe_direction x y = ''LEFT'') \<and>
   (dgt (dabs x) (dabs y) \<and> \<not> dgt x (Finite 50) \<and> \<not> dlt x (Finite (- 50))
      \<longrightarrow> swipe_direction x y = '''') \<and>
   (dle (dabs x) (dabs y) \<and> dgt y (Finite 50) \<longrightarrow> swipe_direction x y = ''DOWN'') \<and>
   (dle (dabs x) (dabs y) \<and> dlt y (Finite (- 50)) \<longrightarrow> swipe_direction x y = ''UP'') \<and>
   (dle (dabs x) (dabs y) \<and> \<not> dgt y (Finite 50) \<and> \<not> dlt y (Finite (- 50))
      \<longrightarrow> swipe_direction x y = '''') \<and>
   swipe_direction (Finite 51) (Finite 0) = ''RIGHT'' \<and>
   swipe_direction (Finite 50) (Finite 0) = '''' \<and>
   swipe_direction (Finite (- 51)) (Finite 0) = ''LEFT'' \<and>
   swipe_direction (Finite 60) (Finite 60) = ''DOWN'' \<and>
   (SwipeGesture.dx (swipe s) = x \<and> SwipeGesture.dy (swipe s) = y \<longrightarrow>
      snd (handle_event sys s GESTURE_SWIPE_END) =
        (if swipe_direction x y = [] then []
         else Detected (SwipeGesture.fingers (swipe s)) (swipe_direction x y)
              # dispatch sys (gesture_bindings s)
                  (SwipeGesture.fingers (swipe s), swipe_direction x y)))"
proof (intro conjI impI)
  assume "dgt (dabs x) (dabs y) \<and> dgt x (Finite 50)"
  then show "swipe_direction x y = ''RIGHT''" by (simp add: swipe_direction_def)
next
  assume "dgt (dabs x) (dabs y) \<and> dlt x (Finite (- 50))"
  then show "swipe_direction x y = ''LEFT''"
    using dlt_not_dgt [of x] by (simp add: swipe_direction_def)
next
  assume "dgt (dabs x) (dabs y) \<and> \<not> dgt x (Finite 50) \<and> \<not> dlt x (Finite (- 50))"
  then show "swipe_direction x y = []" by (simp add: swipe_direction_def)
next
  assume "dle (dabs x) (dabs y) \<and> dgt y (Finite 50)"
  then show "swipe_direction x y = ''DOWN''"
    using dle_not_dgt [of "dabs x" "dabs y"] by (simp add: swipe_direction_def)
next
  assume "dle (dabs x) (dabs y) \<and> dlt y (Finite (- 50))"
  then show "swipe_direction x y = ''UP''"
    using dle_not_dgt [of "dabs x" "dabs y"] dlt_not_dgt [of y]
    by (simp add: swipe_direction_def)
next
  assume "dle (dabs x) (dabs y) \<and> \<not> dgt y (Finite 50) \<and> \<not> dlt y (Finite (- 50))"
  then show "swipe_direction x y = []"
    using dle_not_dgt [of "dabs x" "dabs y"] by (simp add: swipe_direction_def)
next
  assume "SwipeGesture.dx (swipe s) = x \<and> SwipeGesture.dy (swipe s) = y"
  then show "snd (handle_event sys s GESTURE_SWIPE_END) =
        (if swipe_direction x y = [] then []
         else Detected (SwipeGesture.fingers (swipe s)) (swipe_direction x y)
              # dispatch sys (gesture_bindings s)
                  (SwipeGesture.fingers (swipe s), swipe_direction x y))"
    using swipe_end_output [of sys s] by simp
qed (simp_all add: swipe_direction_finite)

theorem swipe_classification_witness:
  "swipe_direction (Finite 80) (Finite 10) = ''RIGHT'' \<and>
   swipe_direction (Finite (- 20)) (Finite (- 90)) = ''UP'' \<and>
   snd (handle_event (\<lambda>c. 0)
         (init_state\<lparr>swipe := \<lparr>SwipeGesture.dx = Finite 80, SwipeGesture.dy = Finite 10,
                                 SwipeGesture.active = True, SwipeGesture.fingers = 3\<rparr>\<rparr>)
         GESTURE_SWIPE_END) = [Detected 3 ''RIGHT'', NoBinding]"
  using swipe_classification [of "Finite 80" "Finite 10"
      "init_state\<lparr>swipe := \<lparr>SwipeGesture.dx = Finite 80, SwipeGesture.dy = Finite 10,
                              SwipeGesture.active = True, SwipeGesture.fingers = 3\<rparr>\<rparr>" "\<lambda>c. 0"]
    swipe_classification [of "Finite (- 20)" "Finite (- 90)" init_state "\<lambda>c. 0"]
  by (simp add: dgt_def dispatch_def init_state_def)

subsection \<open>Updates of an inactive session\<close>

text \<open>
  Claim C2, as stated: an Update received while its session is inactive leaves the session
  unchanged. It fails in the initial state, where both sessions are inactive: a swipe Update
  of \<open>(5, 0)\<close> sets \<^verbatim>\<open>swipe.dx\<close> to 5 and a pinch Update of scale 2 sets \<^verbatim>\<open>pinch.scale\<close>
  to 2.
\<close>

theorem idle_update_counterexample:
  "\<not> SwipeGesture.active (swipe init_state) \<and>
   \<not> PinchGesture.active (pinch init_state) \<and>
   SwipeGesture.dx (swipe init_state) = Finite 0 \<and>
   SwipeGesture.dx (swipe (fst (handle_event (\<lambda>c. 0) init_state
       (GESTURE_SWIPE_UPDATE (Finite 5) (Finite 0))))) = Finite 5 \<and>
   fst (handle_event (\<lambda>c. 0) init_state (GESTURE_SWIPE_UPDATE (Finite 5) (Finite 0)))
     \<noteq> init_state \<and>
   scale (pinch init_state) = Finite 1 \<and>
   scale (pinch (fst (handle_event (\<lambda>c. 0) init_state
       (GESTURE_PINCH_UPDATE (Finite 2) (Finite 0) (Finite 0))))) = Finite 2 \<and>
   fst (handle_event (\<lambda>c. 0) init_state (GESTURE_PINCH_UPDATE (Finite 2) (Finite 0) (Finite 0)))
     \<noteq> init_state"
proof -
  have s: "SwipeGesture.dx (swipe (fst (handle_event (\<lambda>c. 0) init_state
       (GESTURE_SWIPE_UPDATE (Finite 5) (Finite 0))))) = Finite 5"
    by (simp add: init_state_def on_swipe_update_def round_d_5)
  have p: "scale (pinch (fst (handle_event (\<lambda>c. 0) init_state
       (GESTURE_PINCH_UPDATE (Finite 2) (Finite 0) (Finite 0))))) = Finite 2"
    by (simp add: init_state_def on_pinch_update_def round_d_2)
  have i: "SwipeGesture.dx (swipe init_state) = Finite 0" "scale (pinch init_state) = Finite 1"
    "\<not> SwipeGesture.active (swipe init_state)" "\<not> PinchGesture.active (pinch init_state)"
    by (simp_all add: init_state_def)
  have "fst (handle_event (\<lambda>c. 0) init_state (GESTURE_SWIPE_UPDATE (Finite 5) (Finite 0)))
     \<noteq> init_state"
  proof
    assume e: "fst (handle_event (\<lambda>c. 0) init_state
      (GESTURE_SWIPE_UPDATE (Finite 5) (Finite 0))) = init_state"
    have "SwipeGesture.dx (swipe (fst (handle_event (\<lambda>c. 0) init_state
      (GESTURE_SWIPE_UPDATE (Finite 5) (Finite 0))))) = Finite 0"
      unfolding e by (rule i(1))
    with s show False by simp
  qed
  moreover have "fst (handle_event (\<lambda>c. 0) init_state
      (GESTURE_PINCH_UPDATE (Finite 2) (Finite 0) (Finite 0))) \<noteq> init_state"
  proof
    assume e: "fst (handle_event (\<lambda>c. 0) init_state
      (GESTURE_PINCH_UPDATE (Finite 2) (Finite 0) (Finite 0))) = init_state"
    have "scale (pinch (fst (handle_event (\<lambda>c. 0) init_state
      (GESTURE_PINCH_UPDATE (Finite 2) (Finite 0) (Finite 0))))) = Finite 1"
      unfolding e by (rule i(2))
    with p show False by simp
  qed
  ultimately show ?thesis using s p i by simp
qed

text \<open>
  Claim C2, amended: the flag \<^verbatim>\<open>active\<close> has no influence on an Update. An Update received
  while the session is inactive adds its motion to the accumulators (and multiplies the scale
  of a pinch by its factor) exactly as in an active session; the flag itself, the finger
  count, the rest of the state and the output are unchanged.
\<close>

theorem idle_update_accumulates:
  "(\<not> SwipeGesture.active (swipe s) \<longrightarrow>
      handle_event sys s (GESTURE_SWIPE_UPDATE x y) =
        (s\<lparr>swipe := \<lparr>SwipeGesture.dx = dadd (SwipeGesture.dx (swipe s)) x,
                      SwipeGesture.dy = dadd (SwipeGesture.dy (swipe s)) y,
                      SwipeGesture.active = False,
                      SwipeGesture.fingers = SwipeGesture.fingers (swipe s)\<rparr>\<rparr>, [])) \<and>
   (\<not> PinchGesture.active (pinch s) \<longrightarrow>
      handle_event sys s (GESTURE_PINCH_UPDATE sc x y) =
        (s\<lparr>pinch := \<lparr>scale = dmul (scale (pinch s)) sc,
                      PinchGesture.dx = dadd (PinchGesture.dx (pinch s)) x,
                      PinchGesture.dy = dadd (PinchGesture.dy (pinch s)) y,
                      PinchGesture.fingers = PinchGesture.fingers (pinch s),
                      PinchGesture.active = False\<rparr>\<rparr>, [])) \<and>
   handle_event sys (s\<lparr>swipe := (swipe s)\<lparr>SwipeGesture.active := a\<rparr>\<rparr>)
       (GESTURE_SWIPE_UPDATE x y) =
     (let r = handle_event sys s (GESTURE_SWIPE_UPDATE x y)
      in ((fst r)\<lparr>swipe := (swipe (fst r))\<lparr>SwipeGesture.active := a\<rparr>\<rparr>, snd r)) \<and>
   handle_event sys (s\<lparr>pinch := (pinch s)\<lparr>PinchGesture.active := a\<rparr>\<rparr>)
       (GESTURE_PINCH_UPDATE sc x y) =
     (let r = handle_event sys s (GESTURE_PINCH_UPDATE sc x y)
      in ((fst r)\<lparr>pinch := (pinch (fst r))\<lparr>PinchGesture.active := a\<rparr>\<rparr>, snd r))"
  by (cases s; cases "swipe s"; cases "pinch s")
     (simp add: on_swipe_update_def on_pinch_update_def)

theorem idle_update_accumulates_witness:
  "handle_event (\<lambda>c. 0) init_state (GESTURE_SWIPE_UPDATE (Finite 5) (Finite 0)) =
     (init_state\<lparr>swipe := \<lparr>SwipeGesture.dx = Finite 5, SwipeGesture.dy = Finite 0,
                      SwipeGesture.active = False, SwipeGesture.fingers = 0\<rparr>\<rparr>, []) \<and>
   handle_event (\<lambda>c. 0) init_state (GESTURE_PINCH_UPDATE (Finite 2) (Finite 0) (Finite 0)) =
     (init_state\<lparr>pinch := \<lparr>scale = Finite 2, PinchGesture.dx = Finite 0,
                      PinchGesture.dy = Finite 0, PinchGesture.fingers = 0,
                      PinchGesture.active = False\<rparr>\<rparr>, [])"
  using idle_update_accumulates [where s = init_state and sys = "\<lambda>c. 0" and x = "Finite 5"
      and y = "Finite 0" and sc = "Finite 2" and a = False]
    idle_update_accumulates [where s = init_state and sys = "\<lambda>c. 0" and x = "Finite 0"
      and y = "Finite 0" and sc = "Finite 2" and a = False]
  by (simp add: init_state_def round_d_5 round_d_2 round_d_0)

subsection \<open>Accumulation\<close>

lemma sums_exact_total:
  "sums_exact a ds \<Longrightarrow> round_d a = Finite a \<Longrightarrow> round_d (a + sum_list ds) = Finite (a + sum_list ds)"
proof (induction ds arbitrary: a)
  case Nil
  then show ?case by simp
next
  case (Cons d ds)
  then have "round_d (a + d + sum_list ds) = Finite (a + d + sum_list ds)" by simp
  then show ?case by (simp add: add.assoc)
qed

lemma products_exact_total:
  "products_exact a fs \<Longrightarrow> round_d a = Finite a \<Longrightarrow>
   round_d (a * prod_list fs) = Finite (a * prod_list fs)"
proof (induction fs arbitrary: a)
  case Nil
  then show ?case by simp
next
  case (Cons f fs)
  then have "round_d (a * f * prod_list fs) = Finite (a * f * prod_list fs)" by simp
  then show ?case by (simp add: mult.assoc)
qed

lemma swipe_updates_exact:
  "sums_exact a (map fst ds) \<Longrightarrow> sums_exact b (map snd ds) \<Longrightarrow>
   SwipeGesture.dx (swipe s) = Finite a \<Longrightarrow> SwipeGesture.dy (swipe s) = Finite b \<Longrightarrow>
   handle_events sys s (swipe_updates ds) =
     (s\<lparr>swipe := (swipe s)\<lparr>SwipeGesture.dx := Finite (a + sum_list (map fst ds)),
                            SwipeGesture.dy := Finite (b + sum_list (map snd ds))\<rparr>\<rparr>, [])"
proof (induction ds arbitrary: a b s)
  case Nil
  then show ?case by (simp add: swipe_updates_def)
next
  case (Cons d ds)
  let ?s1 = "s\<lparr>swipe := (swipe s)\<lparr>SwipeGesture.dx := Finite (a + fst d),
                            SwipeGesture.dy := Finite (b + snd d)\<rparr>\<rparr>"
  have u: "on_swipe_update (swipe s) (Finite (fst d)) (Finite (snd d)) =
      (swipe s)\<lparr>SwipeGesture.dx := Finite (a + fst d), SwipeGesture.dy := Finite (b + snd d)\<rparr>"
    using Cons.prems by (simp add: on_swipe_update_def)
  have "handle_events sys ?s1 (swipe_updates ds) =
     (?s1\<lparr>swipe := (swipe ?s1)\<lparr>SwipeGesture.dx := Finite (a + fst d + sum_list (map fst ds)),
                            SwipeGesture.dy := Finite (b + snd d + sum_list (map snd ds))\<rparr>\<rparr>, [])"
    using Cons.prems by (intro Cons.IH) simp_all
  then show ?case
    by (simp add: swipe_updates_def u add.assoc)
qed

lemma pinch_updates_exact:
  "products_exact a (map fst ps) \<Longrightarrow> scale (pinch s) = Finite a \<Longrightarrow>
   scale (pinch (fst (handle_events sys s (pinch_updates ps)))) = Finite (a * prod_list (map fst ps))"
proof (induction ps arbitrary: a s)
  case Nil
  then show ?case by (simp add: pinch_updates_def)
next
  case (Cons p ps)
  let ?s1 = "s\<lparr>pinch := on_pinch_update (pinch s) (Finite (fst p)) (fst (snd p)) (snd (snd p))\<rparr>"
  have s1: "scale (pinch ?s1) = Finite (a * fst p)"
    using Cons.prems by (simp add: on_pinch_update_def)
  have "scale (pinch (fst (handle_events sys ?s1 (pinch_updates ps))))
      = Finite (a * fst p * prod_list (map fst ps))"
    using Cons.prems s1 by (intro Cons.IH) simp_all
  then show ?case
    by (simp add: pinch_updates_def mult.assoc split_beta)
qed

text \<open>
  Claim C8, as stated: Updates whose motions sum to \<open>(DX, DY)\<close> give the accumulators and the
  verdict of a single Update of \<open>(DX, DY)\<close>. It fails for the Updates
  \<open>50, q, q, q, q\<close> in \<open>dx\<close>, where \<open>q = 2\<^sup>-\<^sup>4\<^sup>9\<close> and all of 50, \<open>q\<close> and the sum \<open>50 + 4q\<close> are
  doubles: each addition \<open>50 + q\<close> is rounded back to 50, so the session ends with
  \<^verbatim>\<open>swipe.dx\<close> = 50 and no direction, while the single Update of \<open>50 + 4q\<close> ends with
  \<open>50 + 4q\<close> and RIGHT.
\<close>

theorem accumulation_counterexample:
  "quarter_ulp = 1 / 2 ^ 49 \<and>
   sum_list [50, quarter_ulp, quarter_ulp, quarter_ulp, quarter_ulp] = 50 + 4 * quarter_ulp \<and>
   round_d 50 = Finite 50 \<and>
   round_d quarter_ulp = Finite quarter_ulp \<and>
   round_d (50 + 4 * quarter_ulp) = Finite (50 + 4 * quarter_ulp) \<and>
   SwipeGesture.dx (swipe (fst (handle_events (\<lambda>c. 0) init_state
      [GESTURE_SWIPE_BEGIN 3,
       GESTURE_SWIPE_UPDATE (Finite 50) (Finite 0),
       GESTURE_SWIPE_UPDATE (Finite quarter_ulp) (Finite 0),
       GESTURE_SWIPE_UPDATE (Finite quarter_ulp) (Finite 0),
       GESTURE_SWIPE_UPDATE (Finite quarter_ulp) (Finite 0),
       GESTURE_SWIPE_UPDATE (Finite quarter_ulp) (Finite 0)]))) = Finite 50 \<and>
   SwipeGesture.dx (swipe (fst (handle_events (\<lambda>c. 0) init_state
      [GESTURE_SWIPE_BEGIN 3,
       GESTURE_SWIPE_UPDATE (Finite (50 + 4 * quarter_ulp)) (Finite 0)])))
     = Finite (50 + 4 * quarter_ulp) \<and>
   Finite 50 \<noteq> Finite (50 + 4 * quarter_ulp) \<and>
   snd (handle_events (\<lambda>c. 0) init_state
      [GESTURE_SWIPE_BEGIN 3,
       GESTURE_SWIPE_UPDATE (Finite 50) (Finite 0),
       GESTURE_SWIPE_UPDATE (Finite quarter_ulp) (Finite 0),
       GESTURE_SWIPE_UPDATE (Finite quarter_ulp) (Finite 0),
       GESTURE_SWIPE_UPDATE (Finite quarter_ulp) (Finite 0),
       GESTURE_SWIPE_UPDATE (Finite quarter_ulp) (Finite 0),
       GESTURE_SWIPE_END]) = [] \<and>
   snd (handle_events (\<lambda>c. 0) init_state
      [GESTURE_SWIPE_BEGIN 3,
       GESTURE_SWIPE_UPDATE (Finite (50 + 4 * quarter_ulp)) (Finite 0),
       GESTURE_SWIPE_END]) = [Detected 3 ''RIGHT'', NoBinding]"
proof (intro conjI)
  show "quarter_ulp = 1 / 2 ^ 49" by (rule quarter_ulp_def)
  show "sum_list [50, quarter_ulp, quarter_ulp, quarter_ulp, quarter_ulp] = 50 + 4 * quarter_ulp"
    by simp
  show "round_d 50 = Finite 50" by (rule round_d_50)
  show "round_d quarter_ulp = Finite quarter_ulp" by (rule round_d_quarter_ulp)
  show "round_d (50 + 4 * quarter_ulp) = Finite (50 + 4 * quarter_ulp)" by (rule round_d_50_ulp)
  show "Finite 50 \<noteq> Finite (50 + 4 * quarter_ulp)" using quarter_ulp_pos by simp
  show "SwipeGesture.dx (swipe (fst (handle_events (\<lambda>c. 0) init_state
      [GESTURE_SWIPE_BEGIN 3,
       GESTURE_SWIPE_UPDATE (Finite 50) (Finite 0),
       GESTURE_SWIPE_UPDATE (Finite quarter_ulp) (Finite 0),
       GESTURE_SWIPE_UPDATE (Finite quarter_ulp) (Finite 0),
       GESTURE_SWIPE_UPDATE (Finite quarter_ulp) (Finite 0),
       GESTURE_SWIPE_UPDATE (Finite quarter_ulp) (Finite 0)]))) = Finite 50"
    by (simp add: init_state_def on_swipe_begin_def on_swipe_update_def round_d_0 round_d_50
        round_d_50_quarter)
  show "SwipeGesture.dx (swipe (fst (handle_events (\<lambda>c. 0) init_state
      [GESTURE_SWIPE_BEGIN 3,
       GESTURE_SWIPE_UPDATE (Finite (50 + 4 * quarter_ulp)) (Finite 0)])))
     = Finite (50 + 4 * quarter_ulp)"
    by (simp add: init_state_def on_swipe_begin_def on_swipe_update_def round_d_0 round_d_50_ulp)
  show "snd (handle_events (\<lambda>c. 0) init_state
      [GESTURE_SWIPE_BEGIN 3,
       GESTURE_SWIPE_UPDATE (Finite 50) (Finite 0),
       GESTURE_SWIPE_UPDATE (Finite quarter_ulp) (Finite 0),
       GESTURE_SWIPE_UPDATE (Finite quarter_ulp) (Finite 0),
       GESTURE_SWIPE_UPDATE (Finite quarter_ulp) (Finite 0),
       GESTURE_SWIPE_UPDATE (Finite quarter_ulp) (Finite 0),
       GESTURE_SWIPE_END]) = []"
    by (simp add: init_state_def on_swipe_begin_def on_swipe_update_def on_swipe_end_def
        round_d_0 round_d_50 round_d_50_quarter swipe_direction_finite)
  show "snd (handle_events (\<lambda>c. 0) init_state
      [GESTURE_SWIPE_BEGIN 3,
       GESTURE_SWIPE_UPDATE (Finite (50 + 4 * quarter_ulp)) (Finite 0),
       GESTURE_SWIPE_END]) = [Detected 3 ''RIGHT'', NoBinding]"
    using quarter_ulp_pos
    by (simp add: init_state_def on_swipe_begin_def on_swipe_update_def on_swipe_end_def
        round_d_0 round_d_50_ulp swipe_direction_finite dispatch_def)
qed

text \<open>
  Claim C8, amended: when no addition along the way is rounded, that is, when every partial
  sum of the \<open>dx\<close> and of the \<open>dy\<close> of the Updates is a double, the session ends with the
  accumulators \<open>(DX, DY)\<close>, the sums of the motions, and the End gives the state and the
  verdict of the session with the single Update \<open>(DX, DY)\<close>. Likewise, when every partial
  product of the scale factors is a double, the accumulated scale is their product \<open>S\<close>, as
  after a single Update of factor \<open>S\<close>.
\<close>

theorem accumulation_exact:
  "(sums_exact 0 (map fst ds) \<and> sums_exact 0 (map snd ds) \<longrightarrow>
      swipe (fst (handle_events sys s (GESTURE_SWIPE_BEGIN n # swipe_updates ds))) =
        \<lparr>SwipeGesture.dx = Finite (sum_list (map fst ds)),
         SwipeGesture.dy = Finite (sum_list (map snd ds)),
         SwipeGesture.active = True, SwipeGesture.fingers = n\<rparr> \<and>
      handle_events sys s (GESTURE_SWIPE_BEGIN n # swipe_updates ds @ [GESTURE_SWIPE_END]) =
      handle_events sys s
        [GESTURE_SWIPE_BEGIN n,
         GESTURE_SWIPE_UPDATE (Finite (sum_list (map fst ds))) (Finite (sum_list (map snd ds))),
         GESTURE_SWIPE_END]) \<and>
   (products_exact 1 (map fst ps) \<longrightarrow>
      scale (pinch (fst (handle_events sys s (GESTURE_PINCH_BEGIN n # pinch_updates ps))))
        = Finite (prod_list (map fst ps)) \<and>
      scale (pinch (fst (handle_events sys s (GESTURE_PINCH_BEGIN n # pinch_updates ps))))
        = scale (pinch (fst (handle_events sys s
            [GESTURE_PINCH_BEGIN n,
             GESTURE_PINCH_UPDATE (Finite (prod_list (map fst ps))) x y]))))"
proof (intro conjI impI)
  let ?b = "s\<lparr>swipe := on_swipe_begin (swipe s) n\<rparr>"
  let ?X = "sum_list (map fst ds)" and ?Y = "sum_list (map snd ds)"
  assume a: "sums_exact 0 (map fst ds) \<and> sums_exact 0 (map snd ds)"
  have u: "handle_events sys ?b (swipe_updates ds) =
     (?b\<lparr>swipe := (swipe ?b)\<lparr>SwipeGesture.dx := Finite (0 + ?X),
                              SwipeGesture.dy := Finite (0 + ?Y)\<rparr>\<rparr>, [])"
    using a by (intro swipe_updates_exact) (simp_all add: on_swipe_begin_def)
  have x: "round_d ?X = Finite ?X"
    using sums_exact_total [of 0 "map fst ds"] a round_d_0 by simp
  have y: "round_d ?Y = Finite ?Y"
    using sums_exact_total [of 0 "map snd ds"] a round_d_0 by simp
  have v: "handle_event sys ?b (GESTURE_SWIPE_UPDATE (Finite ?X) (Finite ?Y)) =
     (?b\<lparr>swipe := (swipe ?b)\<lparr>SwipeGesture.dx := Finite ?X, SwipeGesture.dy := Finite ?Y\<rparr>\<rparr>, [])"
    using x y by (simp add: on_swipe_update_def on_swipe_begin_def)
  show "swipe (fst (handle_events sys s (GESTURE_SWIPE_BEGIN n # swipe_updates ds))) =
        \<lparr>SwipeGesture.dx = Finite ?X, SwipeGesture.dy = Finite ?Y,
         SwipeGesture.active = True, SwipeGesture.fingers = n\<rparr>"
    using u by (simp add: on_swipe_begin_def)
  show "handle_events sys s (GESTURE_SWIPE_BEGIN n # swipe_updates ds @ [GESTURE_SWIPE_END]) =
      handle_events sys s
        [GESTURE_SWIPE_BEGIN n, GESTURE_SWIPE_UPDATE (Finite ?X) (Finite ?Y), GESTURE_SWIPE_END]"
    using u v by (simp add: handle_events_append)
next
  let ?b = "s\<lparr>pinch := on_pinch_begin (pinch s) n\<rparr>"
  let ?S = "prod_list (map fst ps)"
  assume a: "products_exact 1 (map fst ps)"
  have u: "scale (pinch (fst (handle_events sys ?b (pinch_updates ps)))) = Finite (1 * ?S)"
    using a by (intro pinch_updates_exact) (simp_all add: on_pinch_begin_def)
  then show "scale (pinch (fst (handle_events sys s (GESTURE_PINCH_BEGIN n # pinch_updates ps))))
        = Finite ?S"
    by simp
  have "round_d ?S = Finite ?S"
    using products_exact_total [of 1 "map fst ps"] a round_d_1 by simp
  then show "scale (pinch (fst (handle_events sys s (GESTURE_PINCH_BEGIN n # pinch_updates ps))))
        = scale (pinch (fst (handle_events sys s
            [GESTURE_PINCH_BEGIN n, GESTURE_PINCH_UPDATE (Finite ?S) x y])))"
    using u by (simp add: on_pinch_begin_def on_pinch_update_def)
qed

theorem accumulation_exact_witness:
  "handle_events (\<lambda>c. 0) init_state
     [GESTURE_SWIPE_BEGIN 3,
      GESTURE_SWIPE_UPDATE (Finite 40) (Finite 5),
      GESTURE_SWIPE_UPDATE (Finite 40) (Finite 5),
      GESTURE_SWIPE_END] =
   handle_events (\<lambda>c. 0) init_state
     [GESTURE_SWIPE_BEGIN 3, GESTURE_SWIPE_UPDATE (Finite 80) (Finite 10), GESTURE_SWIPE_END] \<and>
   scale (pinch (fst (handle_events (\<lambda>c. 0) init_state
     [GESTURE_PINCH_BEGIN 2,
      GESTURE_PINCH_UPDATE (Finite (1 / 2)) (Finite 0) (Finite 0),
      GESTURE_PINCH_UPDATE (Finite 4) (Finite 0) (Finite 0)]))) = Finite 2"
  using accumulation_exact [where ds = "[(40, 5), (40, 5)]" and sys = "\<lambda>c. 0"
      and s = init_state and n = 3 and ps = "[]"]
    accumulation_exact [where ps = "[(1 / 2, Finite 0, Finite 0), (4, Finite 0, Finite 0)]"
      and sys = "\<lambda>c. 0" and s = init_state and n = 2 and ds = "[]"]
  by (simp add: swipe_updates_def pinch_updates_def round_d_40 round_d_80 round_d_5 round_d_10
      round_d_half round_d_2 del: handle_events.simps)
subsection \<open>Pinch classification\<close>

lemma pinch_thresholds: "dlt sc (round_d (9 / 10)) \<Longrightarrow> \<not> dgt sc (round_d (11 / 10))"
  by (cases sc) (simp_all add: round_d_11_10 round_d_9_10 dgt_def)

text \<open>The comparisons are strict: the doubles \<^verbatim>\<open>1.1\<close> and \<^verbatim>\<open>0.9\<close> themselves are neutral.\<close>

lemma pinch_boundaries:
  "pinch_verdict (round_d (11 / 10)) = MinorPinch \<and> pinch_verdict (round_d (9 / 10)) = MinorPinch"
  by (simp add: pinch_verdict_def round_d_11_10 round_d_9_10 dgt_def)

lemma predefined_commands_notify:
  "predefined_commands ! 1 = ''notify-send '' @ [CHR 0x27] @ ''Gesture Triggered'' @ [CHR 0x27] \<and>
   length (predefined_commands ! 1) = 31 \<and> length predefined_commands = 7"
  by (simp add: predefined_commands_def)

lemma pinch_end_eq:
  "on_pinch_end s =
     (s\<lparr>pinch := (pinch s)\<lparr>PinchGesture.active := False\<rparr>\<rparr>, [pinch_verdict (scale (pinch s))])"
  by (simp add: on_pinch_end_def Let_def)

lemma pinch_verdict_not_System: "pinch_verdict sc \<noteq> System c"
  by (simp add: pinch_verdict_def)

lemma pinch_example_out:
  "snd (handle_events sys init_state
          [GESTURE_PINCH_BEGIN 2,
           GESTURE_PINCH_UPDATE (round_d (12 / 10)) (Finite 0) (Finite 0),
           GESTURE_PINCH_UPDATE (Finite 1) (Finite 0) (Finite 0),
           GESTURE_PINCH_END]) = [PinchOut]"
  by (simp add: init_state_def on_pinch_begin_def on_pinch_update_def on_pinch_end_def
      pinch_verdict_def round_d_11_10 round_d_9_10 round_d_6_5 round_d_6_5_exact round_d_0
      dgt_def)

lemma pinch_example_in:
  "snd (handle_events sys init_state
          [GESTURE_PINCH_BEGIN 2,
           GESTURE_PINCH_UPDATE (Finite (1 / 2)) (Finite 0) (Finite 0),
           GESTURE_PINCH_UPDATE (round_d (16 / 10)) (Finite 0) (Finite 0),
           GESTURE_PINCH_END]) = [PinchIn]"
  by (simp add: init_state_def on_pinch_begin_def on_pinch_update_def on_pinch_end_def
      pinch_verdict_def round_d_11_10 round_d_9_10 round_d_8_5 round_d_4_5_exact round_d_half
      round_d_0 dgt_def)

lemma pinch_example_neutral:
  "snd (handle_events sys init_state [GESTURE_PINCH_BEGIN 2, GESTURE_PINCH_END]) = [MinorPinch]"
  by (simp add: init_state_def on_pinch_begin_def on_pinch_end_def
      pinch_verdict_def round_d_11_10 round_d_9_10 dgt_def)

text \<open>
  Claim C5. At the end of a pinch the accumulated scale \<open>sc\<close> is classified by comparison
  with the doubles \<^verbatim>\<open>1.1\<close> and \<^verbatim>\<open>0.9\<close>: zoom in when \<open>sc > 1.1\<close>, zoom out when
  \<open>sc < 0.9\<close>, neutral otherwise. The End event always prints exactly this verdict, calls
  no command and leaves the binding table as it is. The factors \<open>1.2, 1.0\<close> give zoom in,
  \<open>0.5, 1.6\<close> give zoom out and no factor at all gives neutral.
\<close>

theorem pinch_classification:
  "(dgt sc (round_d (11 / 10)) \<longrightarrow> pinch_verdict sc = PinchOut) \<and>
   (dlt sc (round_d (9 / 10)) \<longrightarrow> pinch_verdict sc = PinchIn) \<and>
   (\<not> dgt sc (round_d (11 / 10)) \<and> \<not> dlt sc (round_d (9 / 10))
      \<longrightarrow> pinch_verdict sc = MinorPinch) \<and>
   (scale (pinch s) = sc \<longrightarrow>
      snd (handle_event sys s GESTURE_PINCH_END) = [pinch_verdict sc] \<and>
      System c \<notin> set (snd (handle_event sys s GESTURE_PINCH_END)) \<and>
      gesture_bindings (fst (handle_event sys s GESTURE_PINCH_END)) = gesture_bindings s) \<and>
   snd (handle_events sys init_state
          [GESTURE_PINCH_BEGIN 2,
           GESTURE_PINCH_UPDATE (round_d (12 / 10)) (Finite 0) (Finite 0),
           GESTURE_PINCH_UPDATE (Finite 1) (Finite 0) (Finite 0),
           GESTURE_PINCH_END]) = [PinchOut] \<and>
   snd (handle_events sys init_state
          [GESTURE_PINCH_BEGIN 2,
           GESTURE_PINCH_UPDATE (Finite (1 / 2)) (Finite 0) (Finite 0),
           GESTURE_PINCH_UPDATE (round_d (16 / 10)) (Finite 0) (Finite 0),
           GESTURE_PINCH_END]) = [PinchIn] \<and>
   snd (handle_events sys init_state [GESTURE_PINCH_BEGIN 2, GESTURE_PINCH_END]) = [MinorPinch]"
proof (intro conjI impI)
  assume "dgt sc (round_d (11 / 10))"
  then show "pinch_verdict sc = PinchOut" by (simp add: pinch_verdict_def)
next
  assume "dlt sc (round_d (9 / 10))"
  then show "pinch_verdict sc = PinchIn"
    using pinch_thresholds [of sc] by (simp add: pinch_verdict_def)
next
  assume "\<not> dgt sc (round_d (11 / 10)) \<and> \<not> dlt sc (round_d (9 / 10))"
  then show "pinch_verdict sc = MinorPinch" by (simp add: pinch_verdict_def)
next
  assume "scale (pinch s) = sc"
  then show "snd (handle_event sys s GESTURE_PINCH_END) = [pinch_verdict sc]"
    by (simp add: pinch_end_eq)
next
  assume "scale (pinch s) = sc"
  show "System c \<notin> set (snd (handle_event sys s GESTURE_PINCH_END))"
    using pinch_verdict_not_System [of "scale (pinch s)" c] by (simp add: pinch_end_eq)
next
  show "gesture_bindings (fst (handle_event sys s GESTURE_PINCH_END)) = gesture_bindings s"
    by (simp add: pinch_end_eq)
next
  show "snd (handle_events sys init_state
          [GESTURE_PINCH_BEGIN 2,
           GESTURE_PINCH_UPDATE (round_d (12 / 10)) (Finite 0) (Finite 0),
           GESTURE_PINCH_UPDATE (Finite 1) (Finite 0) (Finite 0),
           GESTURE_PINCH_END]) = [PinchOut]"
    by (rule pinch_example_out)
next
  show "snd (handle_events sys init_state
          [GESTURE_PINCH_BEGIN 2,
           GESTURE_PINCH_UPDATE (Finite (1 / 2)) (Finite 0) (Finite 0),
           GESTURE_PINCH_UPDATE (round_d (16 / 10)) (Finite 0) (Finite 0),
           GESTURE_PINCH_END]) = [PinchIn]"
    by (rule pinch_example_in)
next
  show "snd (handle_events sys init_state [GESTURE_PINCH_BEGIN 2, GESTURE_PINCH_END])
      = [MinorPinch]"
    by (rule pinch_example_neutral)
qed

theorem pinch_classification_witness:
  "pinch_verdict (Finite 2) = PinchOut \<and>
   pinch_verdict (Finite (1 / 2)) = PinchIn \<and>
   pinch_verdict (Finite 1) = MinorPinch \<and>
   pinch_verdict NaN = MinorPinch \<and>
   snd (handle_event (\<lambda>c. 0) init_state GESTURE_PINCH_END) = [MinorPinch]"
  using pinch_classification [where sc = "Finite 2" and s = init_state and sys = "\<lambda>c. 0"]
    pinch_classification [where sc = "Finite (1 / 2)" and s = init_state and sys = "\<lambda>c. 0"]
    pinch_classification [where sc = "Finite 1" and s = init_state and sys = "\<lambda>c. 0"]
    pinch_classification [where sc = NaN and s = init_state and sys = "\<lambda>c. 0"]
  by (simp add: round_d_11_10 round_d_9_10 dgt_def init_state_def)

subsection \<open>Hold\<close>

text \<open>
  Claim C9, as stated: a Hold Begin toggles the active flag of the hold session. The program
  keeps no hold session: after a Hold Begin the whole state is the state before, so no
  flag read from the state has changed.
\<close>

theorem hold_toggle_counterexample:
  "\<not> (\<exists>hold_active :: state \<Rightarrow> bool.
        hold_active (fst (handle_event (\<lambda>c. 0) init_state (GESTURE_HOLD_BEGIN 2)))
          \<noteq> hold_active init_state)"
  by simp

text \<open>
  Claim C9, amended: a Hold Begin and a Hold End change nothing at all. The state after the
  event is the state before it (no accumulator, no flag, no binding changes) and the event
  has no output: no verdict is printed and no command is called.
\<close>

theorem hold_changes_nothing:
  "handle_event sys s (GESTURE_HOLD_BEGIN n) = (s, []) \<and>
   handle_event sys s (GESTURE_HOLD_END n) = (s, [])"
  by simp

theorem hold_changes_nothing_witness:
  "handle_events (\<lambda>c. 0) init_state [GESTURE_HOLD_BEGIN 1, GESTURE_HOLD_END 1]
     = (init_state, [])"
  using hold_changes_nothing [of "\<lambda>c. 0" init_state 1]
  by simp

subsection \<open>Dispatch\<close>

lemma dispatch_eq:
  "dispatch sys b k = (case b k of Some cmd \<Rightarrow> [Running cmd, System cmd] | None \<Rightarrow> [NoBinding])"
  by (simp add: dispatch_def split: option.split)

lemma swipe_end_sys: "on_swipe_end sys s = on_swipe_end sys' s"
  by (simp add: on_swipe_end_def dispatch_eq Let_def)

lemma swipe_end_state:
  "fst (on_swipe_end sys s) = s\<lparr>swipe := (swipe s)\<lparr>SwipeGesture.active := False\<rparr>\<rparr>"
  by (simp add: on_swipe_end_def Let_def)

text \<open>
  Claim C6. When the key is bound, the dispatch announces the command and calls
  \<^verbatim>\<open>std::system\<close> exactly once, with the bound command; when it is not, it prints
  "No binding found" and calls nothing. What the call returns has no influence on the
  output or on the state, and the end of a swipe, which is where the dispatch happens,
  changes nothing but the flag \<^verbatim>\<open>swipe.active\<close>: the binding table is as before.
\<close>

theorem dispatch_hit_miss:
  "(b k = Some a \<longrightarrow>
      dispatch sys b k = [Running a, System a] \<and>
      filter (\<lambda>e. \<exists>c. e = System c) (dispatch sys b k) = [System a]) \<and>
   (b k = None \<longrightarrow>
      dispatch sys b k = [NoBinding] \<and>
      filter (\<lambda>e. \<exists>c. e = System c) (dispatch sys b k) = []) \<and>
   dispatch sys b k = dispatch sys' b k \<and>
   handle_event sys s GESTURE_SWIPE_END = handle_event sys' s GESTURE_SWIPE_END \<and>
   fst (handle_event sys s GESTURE_SWIPE_END) =
     s\<lparr>swipe := (swipe s)\<lparr>SwipeGesture.active := False\<rparr>\<rparr> \<and>
   gesture_bindings (fst (handle_event sys s GESTURE_SWIPE_END)) = gesture_bindings s"
  using swipe_end_sys [of sys s sys'] swipe_end_state [of sys s]
  by (simp add: dispatch_eq)

theorem dispatch_hit_miss_witness:
  "dispatch (\<lambda>c. 0) (Map.empty((3, ''RIGHT'') \<mapsto> ''gnome-terminal'')) (3, ''RIGHT'')
     = [Running ''gnome-terminal'', System ''gnome-terminal''] \<and>
   dispatch (\<lambda>c. 0) (Map.empty((3, ''RIGHT'') \<mapsto> ''gnome-terminal'')) (4, ''UP'')
     = [NoBinding] \<and>
   snd (run (\<lambda>c. 0) init_state
     [Frame (choose_item (3, ''RIGHT'') 2),
      Event (GESTURE_SWIPE_BEGIN 3),
      Event (GESTURE_SWIPE_UPDATE (Finite 40) (Finite 5)),
      Event (GESTURE_SWIPE_UPDATE (Finite 40) (Finite 5)),
      Event GESTURE_SWIPE_END,
      Event (GESTURE_SWIPE_BEGIN 4),
      Event (GESTURE_SWIPE_UPDATE (Finite (- 20)) (Finite (- 90))),
      Event GESTURE_SWIPE_END])
   = [Bound 3 ''RIGHT'' ''gnome-terminal'',
      Detected 3 ''RIGHT'', Running ''gnome-terminal'', System ''gnome-terminal'',
      Detected 4 ''UP'', NoBinding]"
proof -
  have r: "snd (run (\<lambda>c. 0) init_state
     [Frame (choose_item (3, ''RIGHT'') 2),
      Event (GESTURE_SWIPE_BEGIN 3),
      Event (GESTURE_SWIPE_UPDATE (Finite 40) (Finite 5)),
      Event (GESTURE_SWIPE_UPDATE (Finite 40) (Finite 5)),
      Event GESTURE_SWIPE_END,
      Event (GESTURE_SWIPE_BEGIN 4),
      Event (GESTURE_SWIPE_UPDATE (Finite (- 20)) (Finite (- 90))),
      Event GESTURE_SWIPE_END])
   = [Bound 3 ''RIGHT'' ''gnome-terminal'',
      Detected 3 ''RIGHT'', Running ''gnome-terminal'', System ''gnome-terminal'',
      Detected 4 ''UP'', NoBinding]"
    apply (simp only: run_Cons_eq run.simps step.simps fst_conv snd_conv)
    apply (simp add: gui_eval on_swipe_begin_def on_swipe_update_def on_swipe_end_def
        dispatch_def swipe_direction_finite round_d_0 round_d_40 round_d_80 round_d_5 round_d_10
        round_d_m20 round_d_m90)
    done
  show ?thesis
    using dispatch_hit_miss [where b = "Map.empty((3, ''RIGHT'') \<mapsto> ''gnome-terminal'')"
        and k = "(3, ''RIGHT'')" and a = "''gnome-terminal''" and sys = "\<lambda>c. 0"
        and sys' = "\<lambda>c. 0" and s = init_state]
      dispatch_hit_miss [where b = "Map.empty((3, ''RIGHT'') \<mapsto> ''gnome-terminal'')"
        and k = "(4, ''UP'')" and a = "''gnome-terminal''" and sys = "\<lambda>c. 0"
        and sys' = "\<lambda>c. 0" and s = init_state]
      r
    by simp
qed

subsection \<open>Binding and unbinding\<close>

text \<open>
  Claim C7. Binding a key to a command twice gives the table that binding it once gives
  (for every command, the sentinel \<^verbatim>\<open>"None"\<close> included), and choosing the sentinel for a key
  that is not in the table leaves the table unchanged.
\<close>

theorem set_binding_idempotent:
  "set_binding (set_binding b k a) k a = set_binding b k a \<and>
   (b k = None \<longrightarrow> set_binding b k ''None'' = b)"
  by (auto simp add: set_binding_def)

theorem set_binding_idempotent_witness:
  "set_binding (set_binding Map.empty (3, ''LEFT'') ''gnome-terminal'') (3, ''LEFT'')
      ''gnome-terminal'' = set_binding Map.empty (3, ''LEFT'') ''gnome-terminal'' \<and>
   set_binding Map.empty (3, ''LEFT'') ''None'' = Map.empty"
  using set_binding_idempotent [where b = Map.empty and k = "(3, ''LEFT'')"
      and a = "''gnome-terminal''"]
  by simp
subsection \<open>The catalog, the table and the frame\<close>

lemma find_cmd_None: "find_cmd xs c = None \<longleftrightarrow> c \<notin> set xs"
  by (induction xs) auto

lemma find_cmd_Some: "find_cmd xs c = Some i \<Longrightarrow> i < length xs \<and> xs ! i = c"
proof (induction xs arbitrary: i)
  case Nil
  then show ?case by simp
next
  case (Cons x xs)
  then show ?case by (cases "x = c") auto
qed

lemma add_custom_action_eq:
  "add_custom_action cmd ucs = (if cmd \<noteq> [] \<and> cmd \<notin> set ucs then ucs @ [cmd] else ucs)"
  by (simp add: add_custom_action_def find_cmd_None)

lemma add_custom_action_distinct: "distinct ucs \<Longrightarrow> distinct (add_custom_action cmd ucs)"
  by (simp add: add_custom_action_eq)

lemma prune_eq:
  "prune_stale_bindings cmds b k =
     (case b k of None \<Rightarrow> None | Some a \<Rightarrow> if a \<in> set cmds then Some a else None)"
  by (simp add: prune_stale_bindings_def find_cmd_None split: option.split)

lemma prune_consistent: "consistent cmds (prune_stale_bindings cmds b)"
  by (auto simp add: consistent_def prune_stale_bindings_def find_cmd_None split: option.split)

lemma prune_keys_ok: "keys_ok b \<Longrightarrow> keys_ok (prune_stale_bindings cmds b)"
  by (auto simp add: keys_ok_def prune_stale_bindings_def split: option.splits if_splits)

lemma set_binding_keys_ok:
  "keys_ok b \<Longrightarrow> k \<in> set binding_keys \<Longrightarrow> keys_ok (set_binding b k a)"
  by (auto simp add: keys_ok_def set_binding_def)

lemma set_binding_consistent:
  "consistent cmds b \<Longrightarrow> a \<in> set cmds \<Longrightarrow> consistent cmds (set_binding b k a)"
  by (auto simp add: consistent_def set_binding_def)

text \<open>One combo box.\<close>

lemma combo_user_commands: "user_commands (fst (combo cmds click acc k)) = user_commands (fst acc)"
  by (simp add: combo_def Let_def split: option.split)

lemma combo_keys_ok:
  "keys_ok (gesture_bindings (fst acc)) \<Longrightarrow> k \<in> set binding_keys \<Longrightarrow>
   keys_ok (gesture_bindings (fst (combo cmds click acc k)))"
  by (simp add: combo_def Let_def set_binding_keys_ok split: option.split)

lemma combo_consistent:
  "consistent cmds (gesture_bindings (fst acc)) \<Longrightarrow>
   consistent cmds (gesture_bindings (fst (combo cmds click acc k)))"
  by (simp add: combo_def Let_def set_binding_consistent split: option.split)

text \<open>The eight combo boxes.\<close>

lemma foldl_combo_user_commands:
  "user_commands (fst (foldl (combo cmds click) acc ks)) = user_commands (fst acc)"
  by (induction ks arbitrary: acc) (simp_all add: combo_user_commands)

lemma foldl_combo_keys_ok:
  "keys_ok (gesture_bindings (fst acc)) \<Longrightarrow> set ks \<subseteq> set binding_keys \<Longrightarrow>
   keys_ok (gesture_bindings (fst (foldl (combo cmds click) acc ks)))"
  by (induction ks arbitrary: acc) (simp_all add: combo_keys_ok)

lemma foldl_combo_consistent:
  "consistent cmds (gesture_bindings (fst acc)) \<Longrightarrow>
   consistent cmds (gesture_bindings (fst (foldl (combo cmds click) acc ks)))"
  by (induction ks arbitrary: acc) (simp_all add: combo_consistent)

text \<open>The frame.\<close>

lemma resync_user_commands: "user_commands (resync s) = user_commands s"
  by (simp add: resync_def Let_def)

lemma resync_bindings:
  "gesture_bindings (resync s) =
     prune_stale_bindings (all_commands (user_commands s)) (gesture_bindings s)"
  by (simp add: resync_def Let_def)

lemma resync_selected:
  assumes "gesture_bindings (resync s) k = Some a"
  shows "\<exists>i. selected_command_indices (resync s) k = Some i \<and>
             i < length (all_commands (user_commands s)) \<and>
             all_commands (user_commands s) ! i = a"
proof -
  let ?cmds = "all_commands (user_commands s)"
  from assms have p: "prune_stale_bindings ?cmds (gesture_bindings s) k = Some a"
    by (simp add: resync_bindings)
  then have "a \<in> set ?cmds"
    by (simp add: prune_eq split: option.splits if_splits)
  then obtain i where i: "find_cmd ?cmds a = Some i"
    using find_cmd_None [of ?cmds a] by auto
  then have "i < length ?cmds \<and> ?cmds ! i = a" by (rule find_cmd_Some)
  moreover have "selected_command_indices (resync s) k = Some i"
    using p i by (simp add: resync_def Let_def sync_selected_commands_def)
  ultimately show ?thesis by blast
qed

lemma add_step_bindings: "gesture_bindings (add_step inp s) = gesture_bindings s"
  by (simp add: add_step_def split: option.split)

lemma gui_frame_user_commands:
  "user_commands (fst (gui_frame s inp)) = user_commands (add_step inp s)"
  by (simp add: gui_frame_def Let_def foldl_combo_user_commands resync_user_commands)

lemma gui_frame_keys_ok:
  "keys_ok (gesture_bindings s) \<Longrightarrow> keys_ok (gesture_bindings (fst (gui_frame s inp)))"
  by (simp add: gui_frame_def Let_def foldl_combo_keys_ok resync_bindings prune_keys_ok
      add_step_bindings)

lemma gui_frame_consistent:
  "consistent (all_commands (user_commands (fst (gui_frame s inp))))
     (gesture_bindings (fst (gui_frame s inp)))"
  unfolding gui_frame_user_commands
  by (simp add: gui_frame_def Let_def foldl_combo_consistent resync_bindings prune_consistent
      resync_user_commands add_step_bindings)

text \<open>The run.\<close>

lemma step_keys_ok:
  "keys_ok (gesture_bindings s) \<Longrightarrow> keys_ok (gesture_bindings (fst (step sys s i)))"
  by (cases i) (simp_all add: handle_event_bindings gui_frame_keys_ok)

lemma run_keys_ok:
  "keys_ok (gesture_bindings s) \<Longrightarrow> keys_ok (gesture_bindings (fst (run sys s ins)))"
proof (induction ins arbitrary: s)
  case Nil
  then show ?case by simp
next
  case (Cons i ins)
  have "keys_ok (gesture_bindings (fst (step sys s i)))"
    using Cons.prems by (rule step_keys_ok)
  then have "keys_ok (gesture_bindings (fst (run sys (fst (step sys s i)) ins)))"
    by (rule Cons.IH)
  then show ?case by (simp add: split_beta)
qed

lemma run_user_commands_distinct:
  "distinct (user_commands s) \<Longrightarrow> distinct (user_commands (fst (run sys s ins)))"
proof (induction ins arbitrary: s)
  case Nil
  then show ?case by simp
next
  case (Cons i ins)
  have "distinct (user_commands (fst (step sys s i)))"
  proof (cases i)
    case (Event e)
    then show ?thesis using Cons.prems by (simp add: handle_event_user_commands)
  next
    case (Frame inp)
    then show ?thesis using Cons.prems
      by (simp add: gui_frame_user_commands add_step_def add_custom_action_distinct
          split: option.split)
  qed
  then have "distinct (user_commands (fst (run sys (fst (step sys s i)) ins)))"
    by (rule Cons.IH)
  then show ?case by (simp add: split_beta)
qed

lemma keys_ok_init: "keys_ok (gesture_bindings init_state)"
  by (simp add: keys_ok_def init_state_def)

lemma binding_keys_set: "set binding_keys = {3, 4} \<times> set directions"
  by (auto simp add: binding_keys_def)

lemma not_bound_miss: "b k = None \<Longrightarrow> dispatch sys b k = [NoBinding]"
  by (simp add: dispatch_def)

subsection \<open>Custom actions\<close>

lemma add_gnome_terminal:
  "user_commands (fst (gui_frame init_state (press_add ''gnome-terminal''))) = [''gnome-terminal'']"
  by (simp add: gui_frame_user_commands add_step_def add_custom_action_def init_state_def
      press_add_def)

text \<open>
  Claim C4, as stated: an action is appended only if it is not already anywhere in the
  catalog, so that the catalog never has two equal entries. It fails for the built-in
  \<^verbatim>\<open>gnome-terminal\<close>: in the initial state it is in the catalog, pressing "Add" with this
  text appends it to the user's commands, and the catalog then has it twice.
\<close>

theorem add_custom_action_counterexample:
  "''gnome-terminal'' \<in> set (all_commands (user_commands init_state)) \<and>
   add_custom_action ''gnome-terminal'' (user_commands init_state) = [''gnome-terminal''] \<and>
   user_commands (fst (gui_frame init_state (press_add ''gnome-terminal'')))
     = [''gnome-terminal''] \<and>
   \<not> distinct (all_commands
        (user_commands (fst (gui_frame init_state (press_add ''gnome-terminal'')))))"
  unfolding add_gnome_terminal
  by (simp add: all_commands_def predefined_commands_def init_state_def add_custom_action_def)

text \<open>
  Claim C4, amended: an action is appended to the user's commands, and so to the end of the
  catalog, if and only if it is non-empty and not already among the user's commands, by
  equality of strings; otherwise the catalog is unchanged. So the user's commands never
  have two equal entries, in any run of the program; the built-in entries are not looked at.
\<close>

theorem add_custom_action_user_section:
  "add_custom_action cmd ucs = (if cmd \<noteq> [] \<and> cmd \<notin> set ucs then ucs @ [cmd] else ucs) \<and>
   all_commands (add_custom_action cmd ucs) =
     (if cmd \<noteq> [] \<and> cmd \<notin> set ucs then all_commands ucs @ [cmd] else all_commands ucs) \<and>
   (distinct ucs \<longrightarrow> distinct (add_custom_action cmd ucs)) \<and>
   distinct (user_commands (fst (run sys init_state ins)))"
proof (intro conjI impI)
  show "add_custom_action cmd ucs = (if cmd \<noteq> [] \<and> cmd \<notin> set ucs then ucs @ [cmd] else ucs)"
    by (rule add_custom_action_eq)
  then show "all_commands (add_custom_action cmd ucs) =
     (if cmd \<noteq> [] \<and> cmd \<notin> set ucs then all_commands ucs @ [cmd] else all_commands ucs)"
    by (simp add: all_commands_def)
  show "distinct (add_custom_action cmd ucs)" if "distinct ucs"
    using that by (rule add_custom_action_distinct)
  show "distinct (user_commands (fst (run sys init_state ins)))"
    by (rule run_user_commands_distinct) (simp add: init_state_def)
qed

theorem add_custom_action_user_section_witness:
  "add_custom_action ''lock-screen'' [] = [''lock-screen''] \<and>
   add_custom_action ''lock-screen'' [''lock-screen''] = [''lock-screen''] \<and>
   add_custom_action [] [''lock-screen''] = [''lock-screen''] \<and>
   distinct (add_custom_action ''lock-screen'' [''lock-screen''])"
  using add_custom_action_user_section [where cmd = "''lock-screen''" and ucs = "[]"
      and sys = "\<lambda>c. 0" and ins = "[]"]
    add_custom_action_user_section [where cmd = "''lock-screen''" and ucs = "[''lock-screen'']"
      and sys = "\<lambda>c. 0" and ins = "[]"]
    add_custom_action_user_section [where cmd = "[]" and ucs = "[''lock-screen'']"
      and sys = "\<lambda>c. 0" and ins = "[]"]
  by simp

subsection \<open>Pruning\<close>

text \<open>
  Claim C3. After the pruning every key of the table is bound to a command of the catalog
  the pruning was given; the pruning erases exactly the entries whose command is not in the
  catalog. In a frame the pruning comes after the handling of "Add", which is the only
  change of the catalog, and before the selection indices are recomputed and the combo
  boxes are shown: after it every bound key has a selection index, and the index is the
  position of its command in the catalog. At the end of the frame every command of the
  table is still in the catalog.
\<close>

theorem prune_invariant:
  "(\<forall>k. prune_stale_bindings cmds b k = None \<or>
        (\<exists>a. prune_stale_bindings cmds b k = Some a \<and> a \<in> set cmds)) \<and>
   (\<forall>k. prune_stale_bindings cmds b k =
        (case b k of None \<Rightarrow> None | Some a \<Rightarrow> if a \<in> set cmds then Some a else None)) \<and>
   gui_frame s inp =
     foldl (combo (all_commands (user_commands (resync (add_step inp s)))) (item_clicked inp))
       (resync (add_step inp s), []) binding_keys \<and>
   gesture_bindings (resync s) =
     prune_stale_bindings (all_commands (user_commands s)) (gesture_bindings s) \<and>
   (\<forall>k. gesture_bindings (resync s) k = None \<or>
        (\<exists>a i. gesture_bindings (resync s) k = Some a \<and>
               a \<in> set (all_commands (user_commands (resync s))) \<and>
               selected_command_indices (resync s) k = Some i \<and>
               i < length (all_commands (user_commands (resync s))) \<and>
               all_commands (user_commands (resync s)) ! i = a)) \<and>
   (\<forall>k. gesture_bindings (fst (gui_frame s inp)) k = None \<or>
        (\<exists>a. gesture_bindings (fst (gui_frame s inp)) k = Some a \<and>
             a \<in> set (all_commands (user_commands (fst (gui_frame s inp))))))"
proof (intro conjI allI)
  fix k
  show "prune_stale_bindings cmds b k = None \<or>
        (\<exists>a. prune_stale_bindings cmds b k = Some a \<and> a \<in> set cmds)"
    using prune_consistent [of cmds b] unfolding consistent_def by blast
next
  fix k
  show "prune_stale_bindings cmds b k =
        (case b k of None \<Rightarrow> None | Some a \<Rightarrow> if a \<in> set cmds then Some a else None)"
    by (rule prune_eq)
next
  show "gui_frame s inp =
     foldl (combo (all_commands (user_commands (resync (add_step inp s)))) (item_clicked inp))
       (resync (add_step inp s), []) binding_keys"
    by (simp add: gui_frame_def Let_def)
next
  show "gesture_bindings (resync s) =
     prune_stale_bindings (all_commands (user_commands s)) (gesture_bindings s)"
    by (rule resync_bindings)
next
  fix k
  show "gesture_bindings (resync s) k = None \<or>
        (\<exists>a i. gesture_bindings (resync s) k = Some a \<and>
               a \<in> set (all_commands (user_commands (resync s))) \<and>
               selected_command_indices (resync s) k = Some i \<and>
               i < length (all_commands (user_commands (resync s))) \<and>
               all_commands (user_commands (resync s)) ! i = a)"
  proof (cases "gesture_bindings (resync s) k")
    case None
    then show ?thesis by simp
  next
    case (Some a)
    then obtain i where "selected_command_indices (resync s) k = Some i"
      "i < length (all_commands (user_commands s))" "all_commands (user_commands s) ! i = a"
      using resync_selected [of s k a] by blast
    then show ?thesis using Some by (auto simp add: resync_user_commands)
  qed
next
  fix k
  show "gesture_bindings (fst (gui_frame s inp)) k = None \<or>
        (\<exists>a. gesture_bindings (fst (gui_frame s inp)) k = Some a \<and>
             a \<in> set (all_commands (user_commands (fst (gui_frame s inp)))))"
    using gui_frame_consistent [of s inp] unfolding consistent_def by blast
qed

theorem prune_invariant_witness:
  "prune_stale_bindings (all_commands [])
     (Map.empty((4, ''DOWN'') \<mapsto> ''lock-screen'', (3, ''LEFT'') \<mapsto> ''gnome-terminal''))
     (4, ''DOWN'') = None \<and>
   prune_stale_bindings (all_commands [])
     (Map.empty((4, ''DOWN'') \<mapsto> ''lock-screen'', (3, ''LEFT'') \<mapsto> ''gnome-terminal''))
     (3, ''LEFT'') = Some ''gnome-terminal'' \<and>
   prune_stale_bindings (all_commands [''lock-screen''])
     (Map.empty((4, ''DOWN'') \<mapsto> ''lock-screen'', (3, ''LEFT'') \<mapsto> ''gnome-terminal''))
     (4, ''DOWN'') = Some ''lock-screen''"
  using prune_invariant [where cmds = "all_commands []" and s = init_state
      and inp = "press_add []"
      and b = "Map.empty((4, ''DOWN'') \<mapsto> ''lock-screen'', (3, ''LEFT'') \<mapsto> ''gnome-terminal'')"]
    prune_invariant [where cmds = "all_commands [''lock-screen'']" and s = init_state
      and inp = "press_add []"
      and b = "Map.empty((4, ''DOWN'') \<mapsto> ''lock-screen'', (3, ''LEFT'') \<mapsto> ''gnome-terminal'')"]
  by (simp add: all_commands_def predefined_commands_def)

subsection \<open>The keys of the binding table\<close>

text \<open>
  Claim C10. In every run of the program from its initial state, every key of the binding
  table has 3 or 4 fingers and one of the directions LEFT, RIGHT, UP, DOWN, so that the
  dispatch of any other key is a miss. Each operation on the table keeps it so: binding one
  of the eight keys of the display, unbinding with the sentinel, pruning, and hence every
  event and every frame.
\<close>

theorem binding_keys_invariant:
  "(\<forall>f d. gesture_bindings (fst (run sys init_state ins)) (f, d) \<noteq> None \<longrightarrow>
           f \<in> {3, 4} \<and> d \<in> {''LEFT'', ''RIGHT'', ''UP'', ''DOWN''}) \<and>
   (\<forall>f d. f \<notin> {3, 4} \<or> d \<notin> {''LEFT'', ''RIGHT'', ''UP'', ''DOWN''} \<longrightarrow>
           dispatch sys (gesture_bindings (fst (run sys init_state ins))) (f, d) = [NoBinding]) \<and>
   set binding_keys = {3, 4} \<times> {''LEFT'', ''RIGHT'', ''UP'', ''DOWN''} \<and>
   (keys_ok b \<and> k \<in> set binding_keys \<longrightarrow> keys_ok (set_binding b k a)) \<and>
   (keys_ok b \<longrightarrow> keys_ok (set_binding b k ''None'')) \<and>
   (keys_ok b \<longrightarrow> keys_ok (prune_stale_bindings cmds b)) \<and>
   (keys_ok (gesture_bindings s) \<longrightarrow> keys_ok (gesture_bindings (fst (step sys s i))))"
proof -
  have ks: "set binding_keys = {3, 4} \<times> {''LEFT'', ''RIGHT'', ''UP'', ''DOWN''}"
    by (auto simp add: binding_keys_set directions_def)
  have ok: "keys_ok (gesture_bindings (fst (run sys init_state ins)))"
    using keys_ok_init by (rule run_keys_ok)
  have 1: "\<forall>f d. gesture_bindings (fst (run sys init_state ins)) (f, d) \<noteq> None \<longrightarrow>
           f \<in> {3, 4} \<and> d \<in> {''LEFT'', ''RIGHT'', ''UP'', ''DOWN''}"
    using ok unfolding keys_ok_def ks by blast
  have 2: "\<forall>f d. f \<notin> {3, 4} \<or> d \<notin> {''LEFT'', ''RIGHT'', ''UP'', ''DOWN''} \<longrightarrow>
           dispatch sys (gesture_bindings (fst (run sys init_state ins))) (f, d) = [NoBinding]"
  proof (intro allI impI)
    fix f :: int and d :: string
    assume "f \<notin> {3, 4} \<or> d \<notin> {''LEFT'', ''RIGHT'', ''UP'', ''DOWN''}"
    then have "gesture_bindings (fst (run sys init_state ins)) (f, d) = None"
      using 1 by blast
    then show "dispatch sys (gesture_bindings (fst (run sys init_state ins))) (f, d) = [NoBinding]"
      by (rule not_bound_miss)
  qed
  have 3: "keys_ok b \<longrightarrow> keys_ok (set_binding b k ''None'')"
    by (auto simp add: keys_ok_def set_binding_def)
  show ?thesis
    using ks 1 2 3 set_binding_keys_ok [of b k a] prune_keys_ok [of b cmds]
      step_keys_ok [of s sys i]
    by blast
qed

theorem binding_keys_invariant_witness:
  "dispatch (\<lambda>c. 0)
     (gesture_bindings (fst (run (\<lambda>c. 0) init_state
        [Frame (choose_item (3, ''RIGHT'') 2),
         Event (GESTURE_SWIPE_BEGIN 5),
         Event (GESTURE_SWIPE_UPDATE (Finite 80) (Finite 10)),
         Event GESTURE_SWIPE_END])))
     (5, ''RIGHT'') = [NoBinding] \<and>
   snd (run (\<lambda>c. 0) init_state
        [Frame (choose_item (3, ''RIGHT'') 2),
         Event (GESTURE_SWIPE_BEGIN 5),
         Event (GESTURE_SWIPE_UPDATE (Finite 80) (Finite 10)),
         Event GESTURE_SWIPE_END])
     = [Bound 3 ''RIGHT'' ''gnome-terminal'', Detected 5 ''RIGHT'', NoBinding] \<and>
   keys_ok (set_binding Map.empty (3, ''RIGHT'') ''gnome-terminal'') \<and>
   keys_ok (prune_stale_bindings [] Map.empty) \<and>
   keys_ok (gesture_bindings (fst (step (\<lambda>c. 0) init_state (Event GESTURE_SWIPE_END))))"
proof -
  have k: "keys_ok Map.empty" by (simp add: keys_ok_def)
  have i: "keys_ok (gesture_bindings init_state)" by (rule keys_ok_init)
  have m: "(3, ''RIGHT'') \<in> set binding_keys" by (simp add: binding_keys_def directions_def)
  have r: "snd (run (\<lambda>c. 0) init_state
        [Frame (choose_item (3, ''RIGHT'') 2),
         Event (GESTURE_SWIPE_BEGIN 5),
         Event (GESTURE_SWIPE_UPDATE (Finite 80) (Finite 10)),
         Event GESTURE_SWIPE_END])
     = [Bound 3 ''RIGHT'' ''gnome-terminal'', Detected 5 ''RIGHT'', NoBinding]"
    apply (simp only: run_Cons_eq run.simps step.simps fst_conv snd_conv)
    apply (simp add: gui_eval on_swipe_begin_def on_swipe_update_def on_swipe_end_def
        dispatch_def swipe_direction_finite round_d_0 round_d_80 round_d_10)
    done
  show ?thesis
    using binding_keys_invariant [where sys = "\<lambda>c. 0"
        and ins = "[Frame (choose_item (3, ''RIGHT'') 2),
         Event (GESTURE_SWIPE_BEGIN 5),
         Event (GESTURE_SWIPE_UPDATE (Finite 80) (Finite 10)),
         Event GESTURE_SWIPE_END]"
        and b = Map.empty and k = "(3, ''RIGHT'')" and a = "''gnome-terminal''" and cmds = "[]"
        and s = init_state and i = "Event GESTURE_SWIPE_END"] k i m r
    by (simp del: run.simps)
qed

end
